theory Spec2Isabelle
  imports Complex_Main
begin

section \<open>Railway station navigation: geometry, route materializer, position simulator\<close>

text \<open>
  The program is TypeScript. A JavaScript \<^verbatim>\<open>number\<close> is modelled as a \<^typ>\<open>real\<close>.
  The distances of the materializer, the accumulator of the simulator and the bearing
  are computed exactly; the interpolation of coordinates, whose identities depend on
  rounding, is computed in IEEE-754 doubles (\<open>toDouble\<close> below). A quotient whose divisor
  is zero is not a number the model holds, and \<open>js_div\<close> answers \<open>None\<close> for it.
  Optional fields (\<^verbatim>\<open>x?: T\<close>) and \<^verbatim>\<open>null\<close> are \<^typ>\<open>'a option\<close>.
  Names are the source's, except where a record field would clash: the fields of a
  point and of an instruction that clash carry the prefixes \<open>pt_\<close> and \<open>inst_\<close>, the field
  \<^verbatim>\<open>pnr\<close> of a PNR record is \<open>pnr_number\<close>, and the state variable \<^verbatim>\<open>error\<close> is
  \<open>errorMessage\<close>.
\<close>

subsection \<open>JavaScript arithmetic\<close>

text \<open>
  Rounding to the nearest double, ties to the even significand: the significand has 53
  bits, so a number \<open>x\<close> with \<^verbatim>\<open>2^k <= |x| < 2^(k+1)\<close> is rounded to a multiple of
  \<^verbatim>\<open>2^(k-52)\<close>.
  The range of the exponent is not bounded: overflow to an infinity and the coarser grid
  of the subnormal numbers are outside the model.
\<close>

definition roundTiesToEven :: "real \<Rightarrow> int" where
  "roundTiesToEven q =
     (let f = \<lfloor>q\<rfloor>
      in if q - of_int f < 1 / 2 then f
         else if 1 / 2 < q - of_int f then f + 1
         else if even f then f else f + 1)"

definition toDouble :: "real \<Rightarrow> real" where
  "toDouble x =
     (if x = 0 then 0
      else (let e = \<lfloor>log 2 \<bar>x\<bar>\<rfloor> - 52
            in of_int (roundTiesToEven (x / 2 powi e)) * 2 powi e))"


text \<open>The operators \<^verbatim>\<open>+\<close>, \<^verbatim>\<open>-\<close> and \<^verbatim>\<open>*\<close> on doubles: the exact result, rounded.\<close>

definition js_add :: "real \<Rightarrow> real \<Rightarrow> real" where
  "js_add a b = toDouble (a + b)"

definition js_sub :: "real \<Rightarrow> real \<Rightarrow> real" where
  "js_sub a b = toDouble (a - b)"

definition js_mul :: "real \<Rightarrow> real \<Rightarrow> real" where
  "js_mul a b = toDouble (a * b)"

text \<open>
  \<^verbatim>\<open>a / b\<close> where the divisor may be zero: JavaScript then answers \<^verbatim>\<open>NaN\<close> or an infinity,
  which is \<open>None\<close> here.
\<close>

definition js_div :: "real \<Rightarrow> real \<Rightarrow> real option" where
  "js_div a b = (if b = 0 then None else Some (a / b))"

text \<open>\<^verbatim>\<open>a % b\<close>: the remainder of the division truncated towards zero.\<close>

definition js_trunc :: "real \<Rightarrow> int" where
  "js_trunc q = (if 0 \<le> q then \<lfloor>q\<rfloor> else \<lceil>q\<rceil>)"

definition js_rem :: "real \<Rightarrow> real \<Rightarrow> real" where
  "js_rem a b = a - b * of_int (js_trunc (a / b))"

text \<open>
  \<^verbatim>\<open>Math.atan2(y, x)\<close> as ECMAScript specifies it on finite arguments: the angle of the
  point \<open>(x, y)\<close> in \<open>(-\<pi>, \<pi>]\<close>, and \<open>0\<close> at the origin.
\<close>

definition atan2 :: "real \<Rightarrow> real \<Rightarrow> real" where
  "atan2 y x =
     (if 0 < x then arctan (y / x)
      else if x < 0 then (if 0 \<le> y then arctan (y / x) + pi else arctan (y / x) - pi)
      else if 0 < y then pi / 2
      else if y < 0 then - (pi / 2)
      else 0)"

subsection \<open>Data model (lib/station-data.ts)\<close>

record LatLng =
  lat :: real
  lng :: real

datatype PointType = Gate | Platform | Poi | PathNode

record StationPoint =
  pt_id :: string
  pt_name :: "string option"
  pt_type :: PointType
  pt_x :: real
  pt_y :: real
  latLng :: "LatLng option"
  cumulativeDistance :: "real option"

text \<open>
  The two display texts of an instruction (English and Hindi) are opaque to every
  computation and are not modelled; where the program speaks an instruction, the
  model records the instruction's id and the language.
\<close>

record PathInstruction =
  inst_id :: string
  inst_from :: string
  inst_to :: string
  path_nodes :: "string list option"
  distance :: "real option"
  cumulativeDistanceToTarget :: "real option"

record PNRDetails =
  pnr_number :: string
  trainNumber :: string
  platformNumber :: string
  coachDetails :: string
  destinationPlatformId :: string

definition STATION_CENTER_LAT :: real where
  "STATION_CENTER_LAT = 286435 / 10000"

definition STATION_CENTER_LNG :: real where
  "STATION_CENTER_LNG = 772222 / 10000"

definition getLatLngFromOffset :: "real \<Rightarrow> real \<Rightarrow> LatLng" where
  "getLatLngFromOffset xOffset yOffset =
     (let latConv = 1 / 111000;
          lngConv = 1 / (111000 * cos ((STATION_CENTER_LAT * pi) / 180))
      in \<lparr> lat = STATION_CENTER_LAT + yOffset * latConv * (- 1),
           lng = STATION_CENTER_LNG + xOffset * lngConv \<rparr>)"

definition rawStationPoints :: "(string \<times> string option \<times> PointType \<times> real \<times> real) list" where
  "rawStationPoints =
    [ (''gate-a'', Some ''Entry Gate A'', Gate, 50, 250),
      (''gate-b'', Some ''Entry Gate B'', Gate, 450, 250),
      (''platform-1'', Some ''Platform 1'', Platform, 250, 50),
      (''platform-2'', Some ''Platform 2'', Platform, 250, 100),
      (''platform-3'', Some ''Platform 3'', Platform, 250, 150),
      (''platform-4'', Some ''Platform 4'', Platform, 250, 200),
      (''waiting-hall'', Some ''Waiting Hall'', Poi, 150, 300),
      (''escalator-1'', Some ''Escalator 1'', Poi, 200, 250),
      (''stairs-1'', Some ''Stairs 1'', Poi, 300, 250),
      (''node-ga-1'', Some ''Node GA-1'', PathNode, 70, 250),
      (''node-ga-2'', Some ''Node GA-2'', PathNode, 100, 250),
      (''node-ga-wh-1'', Some ''Node GA-WH-1'', PathNode, 135, 290),
      (''node-wh-e1-1'', Some ''Node WH-E1-1'', PathNode, 175, 275),
      (''node-e1-p1-1'', Some ''Node E1-P1-1'', PathNode, 190, 210),
      (''node-e1-p1-2'', Some ''Node E1-P1-2'', PathNode, 230, 65),
      (''node-e1-p2-1'', Some ''Node E1-P2-1'', PathNode, 200, 175),
      (''node-e1-p2-2'', None, PathNode, 225, 125),
      (''node-wh-s1-1'', Some ''Node WH-S1-1'', PathNode, 260, 290),
      (''node-s1-p3-1'', Some ''Node S1-P3-1'', PathNode, 310, 215),
      (''node-s1-p3-2'', None, PathNode, 280, 165),
      (''node-s1-p4-1'', Some ''Node S1-P4-1'', PathNode, 300, 200),
      (''node-s1-p4-2'', None, PathNode, 275, 225),
      (''node-gb-1'', Some ''Node GB-1'', PathNode, 430, 250),
      (''node-gb-s1-1'', Some ''Node GB-S1-1'', PathNode, 350, 250) ]"

definition mkPoint :: "string \<times> string option \<times> PointType \<times> real \<times> real \<Rightarrow> StationPoint" where
  "mkPoint raw = (case raw of (i, n, t, x, y) \<Rightarrow>
     \<lparr> pt_id = i, pt_name = n, pt_type = t, pt_x = x, pt_y = y,
       latLng = Some (getLatLngFromOffset x y), cumulativeDistance = None \<rparr>)"

text \<open>\<^verbatim>\<open>mockStationLayout.points\<close> as the module creates it.\<close>

definition mockStationLayout_points :: "StationPoint list" where
  "mockStationLayout_points = map mkPoint rawStationPoints"

definition mkInstruction ::
  "string \<Rightarrow> string \<Rightarrow> string \<Rightarrow> string list option \<Rightarrow> real \<Rightarrow> PathInstruction" where
  "mkInstruction i f t ns d =
     \<lparr> inst_id = i, inst_from = f, inst_to = t, path_nodes = ns, distance = Some d,
       cumulativeDistanceToTarget = None \<rparr>"

definition route_gate_a_platform_1 :: "PathInstruction list" where
  "route_gate_a_platform_1 =
    [ mkInstruction ''inst1'' ''gate-a'' ''node-ga-2'' (Some [''node-ga-1'']) 20,
      mkInstruction ''inst2'' ''node-ga-2'' ''waiting-hall'' (Some [''node-ga-wh-1'']) 30,
      mkInstruction ''inst3'' ''waiting-hall'' ''escalator-1'' (Some [''node-wh-e1-1'']) 40,
      mkInstruction ''inst4'' ''escalator-1'' ''platform-1''
        (Some [''node-e1-p1-1'', ''node-e1-p1-2'']) 50 ]"

definition route_gate_a_platform_2 :: "PathInstruction list" where
  "route_gate_a_platform_2 =
    [ mkInstruction ''inst1'' ''gate-a'' ''node-ga-2'' (Some [''node-ga-1'']) 20,
      mkInstruction ''inst2'' ''node-ga-2'' ''waiting-hall'' (Some [''node-ga-wh-1'']) 30,
      mkInstruction ''inst3'' ''waiting-hall'' ''escalator-1'' (Some [''node-wh-e1-1'']) 40,
      mkInstruction ''inst4'' ''escalator-1'' ''platform-2''
        (Some [''node-e1-p2-1'', ''node-e1-p2-2'']) 50 ]"

definition route_gate_a_platform_3 :: "PathInstruction list" where
  "route_gate_a_platform_3 =
    [ mkInstruction ''inst1'' ''gate-a'' ''node-ga-2'' (Some [''node-ga-1'']) 20,
      mkInstruction ''inst2'' ''node-ga-2'' ''waiting-hall'' (Some [''node-ga-wh-1'']) 30,
      mkInstruction ''inst3'' ''waiting-hall'' ''stairs-1'' (Some [''node-wh-s1-1'']) 40,
      mkInstruction ''inst4'' ''stairs-1'' ''platform-3''
        (Some [''node-s1-p3-1'', ''node-s1-p3-2'']) 50 ]"

definition route_gate_a_platform_4 :: "PathInstruction list" where
  "route_gate_a_platform_4 =
    [ mkInstruction ''inst1'' ''gate-a'' ''node-ga-2'' (Some [''node-ga-1'']) 20,
      mkInstruction ''inst2'' ''node-ga-2'' ''waiting-hall'' (Some [''node-ga-wh-1'']) 30,
      mkInstruction ''inst3'' ''waiting-hall'' ''stairs-1'' (Some [''node-wh-s1-1'']) 40,
      mkInstruction ''inst4'' ''stairs-1'' ''platform-4''
        (Some [''node-s1-p4-1'', ''node-s1-p4-2'']) 50 ]"

definition route_gate_b_platform_1 :: "PathInstruction list" where
  "route_gate_b_platform_1 =
    [ mkInstruction ''inst1'' ''gate-b'' ''node-gb-s1-1'' (Some [''node-gb-1'']) 20,
      mkInstruction ''inst2'' ''node-gb-s1-1'' ''stairs-1'' None 30,
      mkInstruction ''inst3'' ''stairs-1'' ''escalator-1'' (Some [''node-wh-e1-1'']) 40,
      mkInstruction ''inst4'' ''escalator-1'' ''platform-1''
        (Some [''node-e1-p1-1'', ''node-e1-p1-2'']) 50 ]"

definition route_gate_b_platform_2 :: "PathInstruction list" where
  "route_gate_b_platform_2 =
    [ mkInstruction ''inst1'' ''gate-b'' ''node-gb-s1-1'' (Some [''node-gb-1'']) 20,
      mkInstruction ''inst2'' ''node-gb-s1-1'' ''stairs-1'' None 30,
      mkInstruction ''inst3'' ''stairs-1'' ''escalator-1'' (Some [''node-wh-e1-1'']) 40,
      mkInstruction ''inst4'' ''escalator-1'' ''platform-2''
        (Some [''node-e1-p2-1'', ''node-e1-p2-2'']) 50 ]"

definition route_gate_b_platform_3 :: "PathInstruction list" where
  "route_gate_b_platform_3 =
    [ mkInstruction ''inst1'' ''gate-b'' ''node-gb-s1-1'' (Some [''node-gb-1'']) 20,
      mkInstruction ''inst2'' ''node-gb-s1-1'' ''stairs-1'' None 30,
      mkInstruction ''inst3'' ''stairs-1'' ''platform-3''
        (Some [''node-s1-p3-1'', ''node-s1-p3-2'']) 50 ]"

definition route_gate_b_platform_4 :: "PathInstruction list" where
  "route_gate_b_platform_4 =
    [ mkInstruction ''inst1'' ''gate-b'' ''node-gb-s1-1'' (Some [''node-gb-1'']) 20,
      mkInstruction ''inst2'' ''node-gb-s1-1'' ''stairs-1'' None 30,
      mkInstruction ''inst3'' ''stairs-1'' ''platform-4''
        (Some [''node-s1-p4-1'', ''node-s1-p4-2'']) 50 ]"

text \<open>\<^verbatim>\<open>mockStationLayout.paths\<close>, keyed by \<^verbatim>\<open>"gateId-platformId"\<close>.\<close>

definition mockStationLayout_paths :: "string \<rightharpoonup> PathInstruction list" where
  "mockStationLayout_paths = map_of
    [ (''gate-a-platform-1'', route_gate_a_platform_1),
      (''gate-a-platform-2'', route_gate_a_platform_2),
      (''gate-a-platform-3'', route_gate_a_platform_3),
      (''gate-a-platform-4'', route_gate_a_platform_4),
      (''gate-b-platform-1'', route_gate_b_platform_1),
      (''gate-b-platform-2'', route_gate_b_platform_2),
      (''gate-b-platform-3'', route_gate_b_platform_3),
      (''gate-b-platform-4'', route_gate_b_platform_4) ]"

definition mockPNRData :: "PNRDetails list" where
  "mockPNRData =
    [ \<lparr> pnr_number = ''1234567890'', trainNumber = ''12001'', platformNumber = ''1'',
        coachDetails = ''S1, Seat 45'', destinationPlatformId = ''platform-1'' \<rparr>,
      \<lparr> pnr_number = ''0987654321'', trainNumber = ''12002'', platformNumber = ''3'',
        coachDetails = ''A2, Seat 12'', destinationPlatformId = ''platform-3'' \<rparr>,
      \<lparr> pnr_number = ''1122334455'', trainNumber = ''12003'', platformNumber = ''2'',
        coachDetails = ''B5, Seat 23'', destinationPlatformId = ''platform-2'' \<rparr>,
      \<lparr> pnr_number = ''5544332211'', trainNumber = ''12004'', platformNumber = ''4'',
        coachDetails = ''C1, Seat 05'', destinationPlatformId = ''platform-4'' \<rparr> ]"

definition getPNRDetails :: "string \<Rightarrow> PNRDetails option" where
  "getPNRDetails p = find (\<lambda>d. pnr_number d = p) mockPNRData"

subsection \<open>Geometry utilities (lib/utils.ts, calculateBearing)\<close>

definition getDistanceBetweenPoints :: "StationPoint \<Rightarrow> StationPoint \<Rightarrow> real" where
  "getDistanceBetweenPoints p1 p2 =
     (let dx = pt_x p2 - pt_x p1; dy = pt_y p2 - pt_y p1 in sqrt (dx * dx + dy * dy))"

definition getIntermediateLatLng :: "LatLng \<Rightarrow> LatLng \<Rightarrow> real \<Rightarrow> LatLng" where
  "getIntermediateLatLng start end' fraction =
     \<lparr> lat = js_add (lat start) (js_mul (js_sub (lat end') (lat start)) fraction),
       lng = js_add (lng start) (js_mul (js_sub (lng end') (lng start)) fraction) \<rparr>"

definition toRadians :: "real \<Rightarrow> real" where
  "toRadians deg = (deg * pi) / 180"

definition toDegrees :: "real \<Rightarrow> real" where
  "toDegrees rad = (rad * 180) / pi"

definition calculateBearing :: "real \<Rightarrow> real \<Rightarrow> real \<Rightarrow> real \<Rightarrow> real" where
  "calculateBearing lat1 lng1 lat2 lng2 =
     (let phi1 = toRadians lat1;
          phi2 = toRadians lat2;
          dlambda = toRadians (lng2 - lng1);
          y = sin dlambda * cos phi2;
          x = cos phi1 * sin phi2 - sin phi1 * cos phi2 * cos dlambda;
          theta = atan2 y x
      in js_rem (toDegrees theta + 360) 360)"

subsection \<open>Route materializer (generatePathPointsForMap)\<close>

text \<open>
  The StationPoint objects of \<^verbatim>\<open>mockStationLayout.points\<close> are shared: the
  materializer returns an array of references to them and writes their
  \<^verbatim>\<open>cumulativeDistance\<close> field in place. The table is therefore an explicit store (the
  list of the objects, in table order) and a reference to an object is its index.
\<close>

type_synonym point_ref = nat

fun findIndex :: "('a \<Rightarrow> bool) \<Rightarrow> 'a list \<Rightarrow> nat option" where
  "findIndex P [] = None"
| "findIndex P (x # xs) = (if P x then Some 0 else map_option Suc (findIndex P xs))"

text \<open>\<^verbatim>\<open>mockStationLayout.points.find((p) => p.id === id)\<close>: the first object with that id.\<close>

definition getPointById :: "StationPoint list \<Rightarrow> string \<Rightarrow> point_ref option" where
  "getPointById store i = findIndex (\<lambda>p. pt_id p = i) store"

fun pushPathNodes :: "StationPoint list \<Rightarrow> string list \<Rightarrow> point_ref list \<Rightarrow> point_ref list" where
  "pushPathNodes store [] points = points"
| "pushPathNodes store (nodeId # rest) points =
     pushPathNodes store rest
       (case getPointById store nodeId of Some node \<Rightarrow> points @ [node] | None \<Rightarrow> points)"

fun pushInstructions ::
  "StationPoint list \<Rightarrow> PathInstruction list \<Rightarrow> point_ref list \<Rightarrow> point_ref list" where
  "pushInstructions store [] points = points"
| "pushInstructions store (instruction # rest) points =
     (let points1 = (case path_nodes instruction of
                       Some nodes \<Rightarrow> pushPathNodes store nodes points
                     | None \<Rightarrow> points);
          points2 = (case getPointById store (inst_to instruction) of
                       Some toPoint \<Rightarrow> points1 @ [toPoint]
                     | None \<Rightarrow> points1)
      in pushInstructions store rest points2)"

text \<open>
  The loop \<^verbatim>\<open>for (let i = 0; i < points.length; i++)\<close> that writes the cumulative
  distances into the shared objects; \<open>cur\<close> is \<^verbatim>\<open>currentCumulativeDistance\<close>.
\<close>

function assignCumulativeDistances ::
  "StationPoint list \<Rightarrow> point_ref list \<Rightarrow> nat \<Rightarrow> real \<Rightarrow> StationPoint list" where
  "assignCumulativeDistances store points i cur =
     (if i < length points then
        (let cur' = (if 0 < i
                     then cur + getDistanceBetweenPoints (store ! (points ! (i - 1))) (store ! (points ! i))
                     else cur)
         in assignCumulativeDistances
              (store[points ! i := (store ! (points ! i))\<lparr>cumulativeDistance := Some cur'\<rparr>])
              points (i + 1) cur')
      else store)"
  by pat_completeness auto
termination
  by (relation "measure (\<lambda>(store, points, i, cur). length points - i)") auto

declare assignCumulativeDistances.simps [simp del]

text \<open>The objects of the returned array, as a caller reads them.\<close>

definition deref :: "StationPoint list \<Rightarrow> point_ref list \<Rightarrow> StationPoint list" where
  "deref store points = map (\<lambda>r. store ! r) points"

definition annotateInstruction ::
  "StationPoint list \<Rightarrow> point_ref list \<Rightarrow> PathInstruction \<Rightarrow> PathInstruction" where
  "annotateInstruction store points inst =
     (case find (\<lambda>p. pt_id p = inst_to inst) (deref store points) of
        Some targetPoint \<Rightarrow>
          (case cumulativeDistance targetPoint of
             Some d \<Rightarrow> inst\<lparr>cumulativeDistanceToTarget := Some d\<rparr>
           | None \<Rightarrow> inst)
      | None \<Rightarrow> inst)"

text \<open>
  The materializer takes the store and the instruction objects and returns both as it
  leaves them, with the array of references it returns. \<^verbatim>\<open>!entryGateId\<close> holds for
  \<^verbatim>\<open>null\<close> and for the empty string.
\<close>

definition generatePathPointsForMap ::
  "StationPoint list \<Rightarrow> PathInstruction list \<Rightarrow> string option
     \<Rightarrow> StationPoint list \<times> PathInstruction list \<times> point_ref list" where
  "generatePathPointsForMap store instructions entryGateId =
     (case entryGateId of
        None \<Rightarrow> (store, instructions, [])
      | Some gate \<Rightarrow>
          if gate = [] then (store, instructions, [])
          else
            (let points0 = (case getPointById store gate of
                              Some startPoint \<Rightarrow> [startPoint]
                            | None \<Rightarrow> []);
                 points = pushInstructions store instructions points0;
                 store' = assignCumulativeDistances store points 0 0;
                 instructions' = map (annotateInstruction store' points) instructions
             in (store', instructions', points)))"

text \<open>The materialized path: the point objects of the returned array.\<close>

definition materializedPath ::
  "StationPoint list \<Rightarrow> PathInstruction list \<Rightarrow> string option \<Rightarrow> StationPoint list" where
  "materializedPath store instructions entryGateId =
     (case generatePathPointsForMap store instructions entryGateId of
        (store', instructions', points) \<Rightarrow> deref store' points)"

subsection \<open>Component state (RailwayNavigation)\<close>

datatype Language = EnUS | HiIN

text \<open>
  What the component passes to the voice announcer: the text of an instruction
  (identified by the instruction's id) or the destination message built from the
  platform number and the coach details of the PNR record (absent without a record).
\<close>

datatype utterance =
    InstructionText string
  | DestinationMessage "string option" "string option"

datatype speech_call = Speak utterance Language | CancelSpeech

datatype ui_message =
    PnrNotFound
  | NoPathFound
  | SelectGateFirst
  | RouteRecalculated
  | GeolocationUnsupported

text \<open>
  The values that the callback given to \<^verbatim>\<open>setInterval\<close> captures from the render in
  which \<^verbatim>\<open>startSimulation\<close> ran: the array of point references, the instruction array
  (a reference into \<^verbatim>\<open>mockStationLayout.paths\<close>, that is its key, or \<open>None\<close> for the
  empty array), the PNR record and the language.
\<close>

record Interval =
  iv_pathPointsForMap :: "point_ref list"
  iv_pathInstructions :: "string option"
  iv_pnrDetails :: "PNRDetails option"
  iv_language :: Language

text \<open>
  The state of the component with the module-level table it shares: the React state
  variables, the refs, the two parts of \<^verbatim>\<open>mockStationLayout\<close> (whose objects the
  materializer mutates), and the log of the calls made to the voice announcer.
\<close>

record NavState =
  layout_points :: "StationPoint list"
  layout_paths :: "string \<rightharpoonup> PathInstruction list"
  pnr :: string
  pnrDetails :: "PNRDetails option"
  selectedEntryGateId :: "string option"
  pathInstructions :: "string option"
  pathPointsForMap :: "point_ref list"
  errorMessage :: "ui_message option"
  infoMessage :: "ui_message option"
  userPosition :: "LatLng option"
  userBearing :: "real option"
  currentInstructionIndex :: nat
  isSimulating :: bool
  language :: Language
  liveLocationEnabled :: bool
  actualUserLatLng :: "LatLng option"
  geolocationError :: "ui_message option"
  watchIdRef :: "nat option"
  simulationIntervalRef :: "Interval option"
  totalDistanceTraveledRef :: real
  currentInstructionIdxRef :: nat
  speech :: "speech_call list"

definition initialState :: NavState where
  "initialState =
     \<lparr> layout_points = mockStationLayout_points,
       layout_paths = mockStationLayout_paths,
       pnr = [],
       pnrDetails = None,
       selectedEntryGateId = None,
       pathInstructions = None,
       pathPointsForMap = [],
       errorMessage = None,
       infoMessage = None,
       userPosition = None,
       userBearing = None,
       currentInstructionIndex = 0,
       isSimulating = False,
       language = EnUS,
       liveLocationEnabled = False,
       actualUserLatLng = None,
       geolocationError = None,
       watchIdRef = None,
       simulationIntervalRef = None,
       totalDistanceTraveledRef = 0,
       currentInstructionIdxRef = 0,
       speech = [] \<rparr>"

text \<open>The instruction objects behind an instruction-array reference.\<close>

definition instructionsOf ::
  "(string \<rightharpoonup> PathInstruction list) \<Rightarrow> string option \<Rightarrow> PathInstruction list" where
  "instructionsOf paths ref =
     (case ref of
        None \<Rightarrow> []
      | Some key \<Rightarrow> (case paths key of Some instructions \<Rightarrow> instructions | None \<Rightarrow> []))"

text \<open>\<^verbatim>\<open>points[0]?.latLng || null\<close>\<close>

definition firstLatLng :: "StationPoint list \<Rightarrow> point_ref list \<Rightarrow> LatLng option" where
  "firstLatLng store points = (case points of [] \<Rightarrow> None | r # _ \<Rightarrow> latLng (store ! r))"

text \<open>\<^verbatim>\<open>d || 0\<close> on an optional number.\<close>

definition orZero :: "real option \<Rightarrow> real" where
  "orZero d = (case d of Some v \<Rightarrow> v | None \<Rightarrow> 0)"

definition speak :: "utterance \<Rightarrow> Language \<Rightarrow> NavState \<Rightarrow> NavState" where
  "speak u l s = s\<lparr>speech := speech s @ [Speak u l]\<rparr>"

definition cancelSpeech :: "NavState \<Rightarrow> NavState" where
  "cancelSpeech s = s\<lparr>speech := speech s @ [CancelSpeech]\<rparr>"

subsection \<open>Position simulator (startSimulation, cancelSimulation)\<close>

definition simulationSpeed :: real where
  "simulationSpeed = 2"

definition simulationIntervalDuration :: real where
  "simulationIntervalDuration = 50"

definition distanceToAdvance :: real where
  "distanceToAdvance = simulationSpeed * (simulationIntervalDuration / 1000)"

definition cancelSimulation :: "NavState \<Rightarrow> NavState" where
  "cancelSimulation s =
     (cancelSpeech (s\<lparr>simulationIntervalRef := None, isSimulating := False\<rparr>))
       \<lparr>userBearing := None\<rparr>"

definition destinationMessage :: "PNRDetails option \<Rightarrow> utterance" where
  "destinationMessage details =
     DestinationMessage (map_option platformNumber details) (map_option coachDetails details)"

definition totalPathLength :: "StationPoint list \<Rightarrow> real" where
  "totalPathLength path = (if path = [] then 0 else orZero (cumulativeDistance (last path)))"

text \<open>
  The scan \<^verbatim>\<open>for (let i = 0; i < pathPointsForMap.length - 1; i++)\<close> for the first segment
  whose range of cumulative distances holds the accumulator. It answers the two end
  points and \<^verbatim>\<open>fractionInSegment\<close>, which is \<open>None\<close> when it is not a number.
\<close>

fun findSegment ::
  "StationPoint list \<Rightarrow> real \<Rightarrow> (StationPoint \<times> StationPoint \<times> real option) option" where
  "findSegment (p1 # p2 # rest) traveled =
     (let segmentStartDist = orZero (cumulativeDistance p1);
          segmentEndDist = orZero (cumulativeDistance p2)
      in if traveled \<ge> segmentStartDist \<and> traveled \<le> segmentEndDist then
           (let distanceInThisSegment = traveled - segmentStartDist;
                segmentLength = segmentEndDist - segmentStartDist
            in Some (p1, p2,
                 if segmentLength > 0 then js_div distanceInThisSegment segmentLength
                 else Some 0))
         else findSegment (p2 # rest) traveled)"
| "findSegment path traveled = None"

text \<open>
  The position and the bearing that the callback sets from the segment found. A position
  interpolated at a fraction that is not a number would have coordinates that are not
  numbers; the model holds it as no position.
\<close>

definition moveUser :: "StationPoint list \<Rightarrow> real \<Rightarrow> NavState \<Rightarrow> NavState" where
  "moveUser path traveled s =
     (case findSegment path traveled of
        Some (currentSegmentStartPoint, currentSegmentEndPoint, fractionInSegment) \<Rightarrow>
          (case latLng currentSegmentStartPoint of
             Some a \<Rightarrow>
               (case latLng currentSegmentEndPoint of
                  Some b \<Rightarrow>
                    s\<lparr>userPosition := map_option (getIntermediateLatLng a b) fractionInSegment,
                      userBearing := Some (calculateBearing (lat a) (lng a) (lat b) (lng b))\<rparr>
                | None \<Rightarrow> s)
           | None \<Rightarrow> s)
      | None \<Rightarrow> s)"

definition advanceInstruction ::
  "PathInstruction list \<Rightarrow> Language \<Rightarrow> NavState \<Rightarrow> NavState" where
  "advanceInstruction instructions lang s =
     (if currentInstructionIdxRef s < length instructions then
        (case cumulativeDistanceToTarget (instructions ! currentInstructionIdxRef s) of
           Some target \<Rightarrow>
             if totalDistanceTraveledRef s \<ge> target then
               (let idx = currentInstructionIdxRef s + 1;
                    s' = s\<lparr>currentInstructionIdxRef := idx, currentInstructionIndex := idx\<rparr>
                in if idx < length instructions
                   then speak (InstructionText (inst_id (instructions ! idx))) lang s'
                   else s')
             else s
         | None \<Rightarrow> s)
      else s)"

text \<open>One run of the callback of \<^verbatim>\<open>setInterval\<close>.\<close>

definition intervalCallback :: "Interval \<Rightarrow> NavState \<Rightarrow> NavState" where
  "intervalCallback iv s =
     (let s1 = s\<lparr>totalDistanceTraveledRef := totalDistanceTraveledRef s + distanceToAdvance\<rparr>;
          path = deref (layout_points s1) (iv_pathPointsForMap iv);
          total = totalPathLength path
      in if totalDistanceTraveledRef s1 \<ge> total then
           cancelSimulation
             (speak (destinationMessage (iv_pnrDetails iv)) (iv_language iv)
                (s1\<lparr>totalDistanceTraveledRef := total\<rparr>))
         else
           advanceInstruction
             (instructionsOf (layout_paths s1) (iv_pathInstructions iv)) (iv_language iv)
             (moveUser path (totalDistanceTraveledRef s1) s1))"

text \<open>A timer period elapses: the callback runs if the interval has not been cleared.\<close>

definition tick :: "NavState \<Rightarrow> NavState" where
  "tick s = (case simulationIntervalRef s of Some iv \<Rightarrow> intervalCallback iv s | None \<Rightarrow> s)"

definition startSimulation :: "NavState \<Rightarrow> NavState" where
  "startSimulation s =
     (if isSimulating s \<or> length (pathPointsForMap s) < 2 \<or> liveLocationEnabled s then s
      else
        (let s1 = s\<lparr>isSimulating := True, infoMessage := None\<rparr>;
             s2 = (if userPosition s = None \<or> totalDistanceTraveledRef s1 = 0
                   then s1\<lparr>totalDistanceTraveledRef := 0,
                           currentInstructionIdxRef := 0,
                           userPosition := firstLatLng (layout_points s1) (pathPointsForMap s1),
                           userBearing := None\<rparr>
                   else s1);
             instructions = instructionsOf (layout_paths s2) (pathInstructions s2);
             s3 = (if length instructions > 0 \<and> currentInstructionIdxRef s2 < length instructions
                   then speak (InstructionText (inst_id (instructions ! currentInstructionIdxRef s2)))
                          (language s2) s2
                   else s2)
         in s3\<lparr>simulationIntervalRef :=
                 Some \<lparr> iv_pathPointsForMap = pathPointsForMap s,
                        iv_pathInstructions = pathInstructions s,
                        iv_pnrDetails = pnrDetails s,
                        iv_language = language s \<rparr>\<rparr>))"

subsection \<open>Handlers and effects (handlePNRLookup, handleEntryGateSelect, useEffect)\<close>

definition clearRoute :: "NavState \<Rightarrow> NavState" where
  "clearRoute s =
     s\<lparr>pathInstructions := None, pathPointsForMap := [], userPosition := None,
       userBearing := None, actualUserLatLng := None, currentInstructionIndex := 0\<rparr>"

definition handlePNRLookup :: "NavState \<Rightarrow> NavState" where
  "handlePNRLookup s =
     (let s1 = (cancelSimulation (s\<lparr>errorMessage := None, infoMessage := None\<rparr>))
                 \<lparr>liveLocationEnabled := False\<rparr>
      in case getPNRDetails (pnr s) of
           Some details \<Rightarrow>
             clearRoute (s1\<lparr>pnrDetails := Some details, selectedEntryGateId := None\<rparr>)
         | None \<Rightarrow> s1\<lparr>pnrDetails := None, errorMessage := Some PnrNotFound\<rparr>)"

definition handleEntryGateSelect :: "string \<Rightarrow> NavState \<Rightarrow> NavState" where
  "handleEntryGateSelect gateId s =
     (let s1 = (cancelSimulation (s\<lparr>selectedEntryGateId := Some gateId\<rparr>))
                 \<lparr>liveLocationEnabled := False, infoMessage := None\<rparr>
      in case pnrDetails s of
           Some details \<Rightarrow>
             if gateId \<noteq> [] then
               (let pathKey = gateId @ ''-'' @ destinationPlatformId details
                in case layout_paths s1 pathKey of
                     Some instructions \<Rightarrow>
                       (case generatePathPointsForMap (layout_points s1) instructions (Some gateId) of
                          (store', instructions', points) \<Rightarrow>
                            s1\<lparr>layout_points := store',
                               layout_paths := (layout_paths s1)(pathKey \<mapsto> instructions'),
                               pathInstructions := Some pathKey,
                               pathPointsForMap := points,
                               userPosition := firstLatLng store' points,
                               userBearing := None,
                               actualUserLatLng := None,
                               currentInstructionIndex := 0,
                               errorMessage := None\<rparr>)
                   | None \<Rightarrow> (clearRoute s1)\<lparr>errorMessage := Some NoPathFound\<rparr>)
             else clearRoute s1
         | None \<Rightarrow> clearRoute s1)"

definition handleRecalculateRoute :: "NavState \<Rightarrow> NavState" where
  "handleRecalculateRoute s =
     (let s1 = (cancelSimulation s)\<lparr>liveLocationEnabled := False, errorMessage := None\<rparr>
      in case selectedEntryGateId s of
           Some gateId \<Rightarrow>
             if gateId \<noteq> [] \<and> pnrDetails s \<noteq> None
             then (handleEntryGateSelect gateId s1)\<lparr>infoMessage := Some RouteRecalculated\<rparr>
             else s1\<lparr>errorMessage := Some SelectGateFirst\<rparr>
         | None \<Rightarrow> s1\<lparr>errorMessage := Some SelectGateFirst\<rparr>)"

text \<open>
  The effect with dependencies \<^verbatim>\<open>[pnrDetails, selectedEntryGateId]\<close>: React runs it after
  a render in which one of the two changed.
\<close>

definition selectionEffect :: "NavState \<Rightarrow> NavState" where
  "selectionEffect s =
     s\<lparr>totalDistanceTraveledRef := 0, currentInstructionIdxRef := 0, currentInstructionIndex := 0\<rparr>"

text \<open>
  The body of the effect that follows \<^verbatim>\<open>liveLocationEnabled\<close>; \<open>supported\<close> says whether
  \<^verbatim>\<open>navigator.geolocation\<close> exists and \<open>watchId\<close> is the handle \<^verbatim>\<open>watchPosition\<close> returns.
  The position callbacks of the subscription are not modelled.
\<close>

definition liveLocationEffect :: "bool \<Rightarrow> nat \<Rightarrow> NavState \<Rightarrow> NavState" where
  "liveLocationEffect supported watchId s =
     (if liveLocationEnabled s then
        (let s1 = cancelSimulation (s\<lparr>geolocationError := None, infoMessage := None\<rparr>)
         in if \<not> supported then s1\<lparr>geolocationError := Some GeolocationUnsupported\<rparr>
            else s1\<lparr>watchIdRef := Some watchId\<rparr>)
      else
        s\<lparr>watchIdRef := None, actualUserLatLng := None, geolocationError := None,
          userBearing := None\<rparr>)"

text \<open>
  The body of the effect that seeds the user position. It reads the state of the render
  it belongs to, \<open>r\<close>, whatever the effects that ran before it after the same render have
  set; \<open>s\<close> is the state it updates.
\<close>

definition positionEffect :: "NavState \<Rightarrow> NavState \<Rightarrow> NavState" where
  "positionEffect r s =
     (if liveLocationEnabled r \<and> actualUserLatLng r \<noteq> None
      then s\<lparr>userPosition := actualUserLatLng r\<rparr>
      else if \<not> liveLocationEnabled r \<and> length (pathPointsForMap r) > 0 then
        (if \<not> isSimulating r \<and> userPosition r = None
         then s\<lparr>userPosition := firstLatLng (layout_points s) (pathPointsForMap r)\<rparr>
         else s)
      else s\<lparr>userPosition := None\<rparr>)"

text \<open>
  The dependency arrays of the live-location effect, of the seeding effect and of the
  selection effect. The callback \<^verbatim>\<open>cancelSimulation\<close>, a dependency of the first, never
  changes. The dependencies are compared by value.
\<close>

definition liveLocationDeps :: "NavState \<Rightarrow> bool \<times> LatLng option" where
  "liveLocationDeps r = (liveLocationEnabled r, userPosition r)"

definition positionDeps ::
  "NavState \<Rightarrow> bool \<times> LatLng option \<times> point_ref list \<times> bool \<times> LatLng option" where
  "positionDeps r =
     (liveLocationEnabled r, actualUserLatLng r, pathPointsForMap r, isSimulating r, userPosition r)"

definition selectionDeps :: "NavState \<Rightarrow> PNRDetails option \<times> string option" where
  "selectionDeps r = (pnrDetails r, selectedEntryGateId r)"

text \<open>
  The effects that run after the render \<open>r\<close> that follows the render \<open>prev\<close>: those with
  a changed dependency, in the order of their declaration. The values they set are the
  state of the next render; the refs they write are written at once.
\<close>

definition runEffects :: "bool \<Rightarrow> nat \<Rightarrow> NavState \<Rightarrow> NavState \<Rightarrow> NavState" where
  "runEffects supported watchId prev r =
     (let s1 = (if liveLocationDeps r \<noteq> liveLocationDeps prev
                then liveLocationEffect supported watchId r else r);
          s2 = (if positionDeps r \<noteq> positionDeps prev then positionEffect r s1 else s1)
      in if selectionDeps r \<noteq> selectionDeps prev then selectionEffect s2 else s2)"

text \<open>
  The renders that follow a change of the state, until a render changes no dependency;
  \<open>fuel\<close> bounds their number, and the handles that \<^verbatim>\<open>watchPosition\<close> returns are taken from
  \<open>watchId\<close> upwards. The cleanup of the live-location effect clears a subscription and
  touches nothing of the state.
\<close>

fun settle :: "nat \<Rightarrow> bool \<Rightarrow> nat \<Rightarrow> NavState \<Rightarrow> NavState \<Rightarrow> NavState option" where
  "settle 0 supported watchId prev r = None"
| "settle (Suc fuel) supported watchId prev r =
     (if liveLocationDeps r = liveLocationDeps prev \<and> positionDeps r = positionDeps prev
         \<and> selectionDeps r = selectionDeps prev
      then Some r
      else settle fuel supported (Suc watchId) r (runEffects supported watchId prev r))"

text \<open>
  The user switches the live-location toggle, and the user presses Recalculate Route; the
  effects follow.
\<close>

definition setLiveLocationEnabled ::
  "nat \<Rightarrow> bool \<Rightarrow> bool \<Rightarrow> nat \<Rightarrow> NavState \<Rightarrow> NavState option" where
  "setLiveLocationEnabled fuel enabled supported watchId s =
     settle fuel supported watchId s (s\<lparr>liveLocationEnabled := enabled\<rparr>)"

definition recalculateRoute :: "nat \<Rightarrow> bool \<Rightarrow> nat \<Rightarrow> NavState \<Rightarrow> NavState option" where
  "recalculateRoute fuel supported watchId s =
     settle fuel supported watchId s (handleRecalculateRoute s)"

text \<open>
  The user looks a PNR up, and the user picks a gate: the handler, followed by the
  selection effect when the PNR record or the selected gate changed. The other effects of
  the component (the live-location subscription and the seeding of the user position)
  touch neither the accumulator, the instruction indices nor the table, and are not part
  of these two steps.
\<close>

definition lookupPNR :: "string \<Rightarrow> NavState \<Rightarrow> NavState" where
  "lookupPNR p s =
     (let s' = handlePNRLookup (s\<lparr>pnr := p\<rparr>)
      in if pnrDetails s' \<noteq> pnrDetails s \<or> selectedEntryGateId s' \<noteq> selectedEntryGateId s
         then selectionEffect s' else s')"

definition selectEntryGate :: "string \<Rightarrow> NavState \<Rightarrow> NavState" where
  "selectEntryGate gateId s =
     (let s' = handleEntryGateSelect gateId s
      in if pnrDetails s' \<noteq> pnrDetails s \<or> selectedEntryGateId s' \<noteq> selectedEntryGateId s
         then selectionEffect s' else s')"

subsection \<open>Auxiliary definitions for the statements\<close>

text \<open>The length of the polyline through the first \<open>k + 1\<close> points of a path.\<close>

definition pathLengthUpTo :: "StationPoint list \<Rightarrow> point_ref list \<Rightarrow> nat \<Rightarrow> real" where
  "pathLengthUpTo store points k =
     (\<Sum>j<k. getDistanceBetweenPoints (store ! (points ! j)) (store ! (points ! Suc j)))"

text \<open>
  The ids that an instruction list names for its path: for each instruction the ids of
  its path nodes, if it has any, and then the id of its target.
\<close>

definition routePointIds :: "PathInstruction list \<Rightarrow> string list" where
  "routePointIds instructions =
     concat (map (\<lambda>instruction.
                    (case path_nodes instruction of Some nodes \<Rightarrow> nodes | None \<Rightarrow> [])
                    @ [inst_to instruction]) instructions)"

text \<open>
  An instruction list with a path node (node-zz) and a target (hall-zz) that are not in
  the table, and one in which no id is in the table.
\<close>

definition partly_unresolved_route :: "PathInstruction list" where
  "partly_unresolved_route =
     [ mkInstruction ''inst1'' ''gate-x'' ''node-ga-2'' (Some [''node-ga-1'', ''node-zz'']) 50,
       mkInstruction ''inst2'' ''node-ga-2'' ''hall-zz'' (Some [''node-ga-wh-1'']) 40,
       mkInstruction ''inst3'' ''hall-zz'' ''escalator-1'' None 50 ]"

definition unresolved_route :: "PathInstruction list" where
  "unresolved_route =
     [ mkInstruction ''inst1'' ''gate-x'' ''hall-zz'' (Some [''node-zz'']) 10 ]"

text \<open>An instruction list that returns to its starting gate.\<close>

definition revisiting_route :: "PathInstruction list" where
  "revisiting_route =
     [ mkInstruction ''inst1'' ''gate-a'' ''node-ga-1'' None 20,
       mkInstruction ''inst2'' ''node-ga-1'' ''gate-a'' None 20 ]"

text \<open>
  A route that passes its gate again before it leaves for node-ga-2, put in the place of
  the route from gate A to platform 1, and the walk started on it. The path is gate-a,
  gate-a, node-ga-1, gate-a, node-ga-2, and the gate object reads 40 at each of its
  positions.
\<close>

definition looping_route :: "PathInstruction list" where
  "looping_route =
     [ mkInstruction ''inst1'' ''gate-a'' ''gate-a'' (Some [''gate-a'', ''node-ga-1'']) 40,
       mkInstruction ''inst2'' ''gate-a'' ''node-ga-2'' None 50 ]"

definition looping_started :: NavState where
  "looping_started =
     startSimulation
       (selectEntryGate ''gate-a''
          (lookupPNR ''1234567890''
             (initialState\<lparr>layout_paths :=
                 mockStationLayout_paths(''gate-a-platform-1'' \<mapsto> looping_route)\<rparr>)))"

text \<open>
  The walk of the scenario: PNR 1234567890 (platform 1) is looked up, gate A is picked,
  and the simulation is started.
\<close>

definition walk_selected :: NavState where
  "walk_selected = selectEntryGate ''gate-a'' (lookupPNR ''1234567890'' initialState)"

definition walk_started :: NavState where
  "walk_started = startSimulation walk_selected"

text \<open>
  The cumulative distances of that walk at the targets of its first three instructions
  (node-ga-2, waiting-hall, escalator-1) and at its end (platform-1).
\<close>

definition walk_t1 :: real where
  "walk_t1 = 50"

definition walk_t2 :: real where
  "walk_t2 = 50 + sqrt 2825 + sqrt 325"

definition walk_t3 :: real where
  "walk_t3 = 50 + sqrt 2825 + sqrt 325 + sqrt 1250 + sqrt 1250"

definition walk_total :: real where
  "walk_total = 50 + sqrt 2825 + sqrt 325 + sqrt 1250 + sqrt 1250 + sqrt 1700 + sqrt 22625 + 25"

text \<open>
  The instruction index of a walk of four instructions at accumulator \<open>x\<close>, when the
  targets of the first three lie at \<open>t1\<close>, \<open>t2\<close> and \<open>t3\<close>.
\<close>

definition walkIndex :: "real \<Rightarrow> real \<Rightarrow> real \<Rightarrow> real \<Rightarrow> nat" where
  "walkIndex t1 t2 t3 x = (if x < t1 then 0 else if x < t2 then 1 else if x < t3 then 2 else 3)"

section \<open>Geometry utilities: properties\<close>

lemma atan2_range: "- pi < atan2 y x \<and> atan2 y x \<le> pi"
proof -
  have a: "- (pi / 2) < arctan (y / x)" "arctan (y / x) < pi / 2"
    using arctan_lbound arctan_ubound by auto
  have neg: "x < 0 \<Longrightarrow> 0 \<le> y \<Longrightarrow> arctan (y / x) \<le> 0"
    by (simp add: divide_nonneg_neg arctan_le_zero_iff)
  have pos: "x < 0 \<Longrightarrow> y < 0 \<Longrightarrow> 0 < arctan (y / x)"
    by (simp add: divide_neg_neg arctan_less_zero_iff zero_less_arctan_iff)
  show ?thesis
    using a neg pos pi_gt_zero unfolding atan2_def by (auto simp: not_less)
qed

lemma js_rem_pos_range:
  assumes "0 \<le> a" "0 < b"
  shows "0 \<le> js_rem a b \<and> js_rem a b < b"
proof -
  have q: "0 \<le> a / b" using assms by simp
  have "of_int \<lfloor>a / b\<rfloor> * b \<le> a"
    using assms(2) by (rule floor_divide_lower)
  moreover have "a < (of_int \<lfloor>a / b\<rfloor> + 1) * b"
    using assms(2) by (rule floor_divide_upper)
  ultimately show ?thesis
    using q by (simp add: js_rem_def js_trunc_def algebra_simps)
qed

lemma toDegrees_range: "- pi < t \<Longrightarrow> t \<le> pi \<Longrightarrow> - 180 < toDegrees t \<and> toDegrees t \<le> 180"
  using pi_gt_zero by (simp add: toDegrees_def pos_less_divide_eq pos_divide_le_eq)







text \<open>
  C8. The bearing lies in the half-open interval from 0 to 360 for all inputs, and the
  bearing from a point to itself is 0. The only divisors in its computation are the
  constants 180 and \<open>\<pi>\<close>.
\<close>

theorem calculateBearing_range:
  "0 \<le> calculateBearing lat1 lng1 lat2 lng2
   \<and> calculateBearing lat1 lng1 lat2 lng2 < 360
   \<and> calculateBearing la lo la lo = 0"
proof -
  have r: "0 \<le> js_rem (toDegrees (atan2 y x) + 360) 360
           \<and> js_rem (toDegrees (atan2 y x) + 360) 360 < 360" for y x
  proof -
    have "- 180 < toDegrees (atan2 y x)"
      using toDegrees_range atan2_range by blast
    then have "0 \<le> toDegrees (atan2 y x) + 360" by simp
    then show ?thesis using js_rem_pos_range by simp
  qed
  have z: "calculateBearing la lo la lo = 0"
    by (simp add: calculateBearing_def Let_def toRadians_def toDegrees_def atan2_def
        js_rem_def js_trunc_def)
  show ?thesis using r z by (simp add: calculateBearing_def Let_def)
qed

section \<open>Route materializer: properties\<close>

lemmas tbl = mockStationLayout_points_def rawStationPoints_def mkPoint_def

lemma findIndex_Some:
  "findIndex P xs = Some r \<Longrightarrow> r < length xs \<and> P (xs ! r)"
  by (induction xs arbitrary: r) (auto split: if_splits)

lemma getPointById_Some:
  "getPointById store i = Some r \<Longrightarrow> r < length store \<and> pt_id (store ! r) = i"
  unfolding getPointById_def by (drule findIndex_Some) simp

lemma pushPathNodes_valid:
  "\<forall>r\<in>set points. r < length store \<Longrightarrow> \<forall>r\<in>set (pushPathNodes store nodes points). r < length store"
proof (induction nodes arbitrary: points)
  case Nil
  then show ?case by simp
next
  case (Cons nodeId rest)
  let ?p = "case getPointById store nodeId of Some node \<Rightarrow> points @ [node] | None \<Rightarrow> points"
  have "\<forall>r\<in>set ?p. r < length store"
    using Cons.prems by (auto split: option.splits dest: getPointById_Some)
  from Cons.IH [OF this] show ?case by simp
qed

lemma pushInstructions_valid:
  "\<forall>r\<in>set points. r < length store \<Longrightarrow>
   \<forall>r\<in>set (pushInstructions store instructions points). r < length store"
proof (induction instructions arbitrary: points)
  case Nil
  then show ?case by simp
next
  case (Cons instruction rest)
  let ?p1 = "case path_nodes instruction of Some nodes \<Rightarrow> pushPathNodes store nodes points | None \<Rightarrow> points"
  let ?p2 = "case getPointById store (inst_to instruction) of Some toPoint \<Rightarrow> ?p1 @ [toPoint] | None \<Rightarrow> ?p1"
  have 1: "\<forall>r\<in>set ?p1. r < length store"
    using Cons.prems pushPathNodes_valid by (cases "path_nodes instruction") auto
  then have 2: "\<forall>r\<in>set ?p2. r < length store"
    by (auto split: option.splits dest: getPointById_Some)
  show ?case using Cons.IH [OF 2] by (simp add: Let_def)
qed

lemma acd_length [simp]:
  "length (assignCumulativeDistances store points i cur) = length store"
proof (induction store points i cur rule: assignCumulativeDistances.induct)
  case (1 store points i cur)
  show ?case
    using "1.IH" by (subst assignCumulativeDistances.simps) (simp add: Let_def)
qed

lemma acd_frame:
  "r \<notin> set (drop i points) \<Longrightarrow> assignCumulativeDistances store points i cur ! r = store ! r"
proof (induction store points i cur rule: assignCumulativeDistances.induct)
  case (1 store points i cur)
  show ?case
  proof (cases "i < length points")
    case True
    then have d: "drop i points = points ! i # drop (Suc i) points"
      by (simp add: Cons_nth_drop_Suc)
    with "1.prems" have ne: "r \<noteq> points ! i" and rest: "r \<notin> set (drop (i + 1) points)"
      by auto
    show ?thesis
      using True "1.IH" [OF True refl rest] ne
      by (subst assignCumulativeDistances.simps) (simp add: Let_def)
  next
    case False
    then show ?thesis by (subst assignCumulativeDistances.simps) simp
  qed
qed

lemma acd_same_point:
  "(assignCumulativeDistances store points i cur ! r)\<lparr>cumulativeDistance := c\<rparr>
     = (store ! r)\<lparr>cumulativeDistance := c\<rparr>"
proof (induction store points i cur rule: assignCumulativeDistances.induct)
  case (1 store points i cur)
  show ?case
  proof (cases "i < length points")
    case True
    let ?q = "points ! i"
    have upd: "(store[?q := (store ! ?q)\<lparr>cumulativeDistance := v\<rparr>] ! r)\<lparr>cumulativeDistance := c\<rparr>
                 = (store ! r)\<lparr>cumulativeDistance := c\<rparr>" for v
      by (cases "?q < length store"; cases "r = ?q") (simp_all add: list_update_beyond)
    show ?thesis
      using True "1.IH" [OF True refl] upd
      by (subst assignCumulativeDistances.simps) (simp add: Let_def)
  next
    case False
    then show ?thesis by (subst assignCumulativeDistances.simps) simp
  qed
qed


lemma acd_distance:
  "getDistanceBetweenPoints (assignCumulativeDistances store points i cur ! a)
                            (assignCumulativeDistances store points i cur ! b)
     = getDistanceBetweenPoints (store ! a) (store ! b)"
proof -
  have "pt_x (assignCumulativeDistances store points i cur ! r) = pt_x (store ! r)
        \<and> pt_y (assignCumulativeDistances store points i cur ! r) = pt_y (store ! r)" for r
    using acd_same_point [where store=store and points=points and i=i and cur=cur and r=r and c=None]
    by (metis StationPoint.select_convs(4,5) StationPoint.surjective StationPoint.update_convs(7))
  then show ?thesis by (simp add: getDistanceBetweenPoints_def)
qed

lemma acd_pt_id:
  "pt_id (assignCumulativeDistances store points i cur ! r) = pt_id (store ! r)"
  using acd_same_point [where store=store and points=points and i=i and cur=cur and r=r and c=None]
  by (metis StationPoint.select_convs(1) StationPoint.surjective StationPoint.update_convs(7))

lemma update_distance:
  "getDistanceBetweenPoints (store[q := (store ! q)\<lparr>cumulativeDistance := v\<rparr>] ! a)
                            (store[q := (store ! q)\<lparr>cumulativeDistance := v\<rparr>] ! b)
     = getDistanceBetweenPoints (store ! a) (store ! b)"
proof -
  have "pt_x (store[q := (store ! q)\<lparr>cumulativeDistance := v\<rparr>] ! r) = pt_x (store ! r)
        \<and> pt_y (store[q := (store ! q)\<lparr>cumulativeDistance := v\<rparr>] ! r) = pt_y (store ! r)" for r
    by (cases "q < length store"; cases "r = q") (simp_all add: list_update_beyond)
  then show ?thesis by (simp add: getDistanceBetweenPoints_def)
qed

lemma acd_cumulative:
  assumes "distinct points" "\<forall>r\<in>set points. r < length store" "i \<le> k" "k < length points"
  shows "cumulativeDistance (assignCumulativeDistances store points i cur ! (points ! k))
           = Some ((if 0 < i
                    then cur + getDistanceBetweenPoints (store ! (points ! (i - 1))) (store ! (points ! i))
                    else cur)
                   + (\<Sum>j = i..<k. getDistanceBetweenPoints (store ! (points ! j)) (store ! (points ! Suc j))))"
  using assms
proof (induction store points i cur rule: assignCumulativeDistances.induct)
  case (1 store points i cur)
  let ?q = "points ! i"
  let ?cur' = "if 0 < i
               then cur + getDistanceBetweenPoints (store ! (points ! (i - 1))) (store ! ?q)
               else cur"
  let ?store1 = "store[?q := (store ! ?q)\<lparr>cumulativeDistance := Some ?cur'\<rparr>]"
  from "1.prems" have lt: "i < length points" by simp
  have unfold: "assignCumulativeDistances store points i cur
                  = assignCumulativeDistances ?store1 points (i + 1) ?cur'"
    using lt by (subst assignCumulativeDistances.simps) (simp add: Let_def)
  have valid1: "\<forall>r\<in>set points. r < length ?store1"
    using "1.prems"(2) by simp
  show ?case
  proof (cases "k = i")
    case True
    have "?q \<notin> set (drop (i + 1) points)"
      using "1.prems"(1) lt
      by (metis Cons_nth_drop_Suc Suc_eq_plus1 distinct.simps(2) distinct_drop)
    then have "assignCumulativeDistances ?store1 points (i + 1) ?cur' ! ?q = ?store1 ! ?q"
      by (rule acd_frame)
    moreover have "?q < length store" using "1.prems"(2) lt by simp
    ultimately show ?thesis using True unfold by simp
  next
    case False
    with "1.prems" have le: "i + 1 \<le> k" by simp
    have "cumulativeDistance (assignCumulativeDistances ?store1 points (i + 1) ?cur' ! (points ! k))
            = Some ((?cur' + getDistanceBetweenPoints (?store1 ! (points ! i)) (?store1 ! (points ! (i + 1))))
                    + (\<Sum>j = i + 1..<k. getDistanceBetweenPoints (?store1 ! (points ! j)) (?store1 ! (points ! Suc j))))"
      using "1.IH" [OF lt refl "1.prems"(1) valid1 le "1.prems"(4)] by simp
    also have "\<dots> = Some (?cur' + (\<Sum>j = i..<k. getDistanceBetweenPoints (store ! (points ! j)) (store ! (points ! Suc j))))"
      using le by (simp only: update_distance) (simp add: sum.atLeast_Suc_lessThan)
    finally show ?thesis using unfold by simp
  qed
qed


lemma pathLengthUpTo_mono: "i \<le> j \<Longrightarrow> pathLengthUpTo store points i \<le> pathLengthUpTo store points j"
  unfolding pathLengthUpTo_def
  by (rule sum_mono2) (auto simp: getDistanceBetweenPoints_def Let_def)

lemma pathLengthUpTo_Suc:
  "pathLengthUpTo store points (Suc k)
     = pathLengthUpTo store points k
       + getDistanceBetweenPoints (store ! (points ! k)) (store ! (points ! Suc k))"
  by (simp add: pathLengthUpTo_def)

lemma generate_store_points:
  assumes "generatePathPointsForMap store instructions entryGateId = (store', instructions', points)"
  shows "(points = [] \<and> store' = store \<and> instructions' = instructions)
         \<or> (store' = assignCumulativeDistances store points 0 0
             \<and> instructions' = map (annotateInstruction store' points) instructions
             \<and> (\<forall>r\<in>set points. r < length store))"
proof (cases entryGateId)
  case None
  with assms show ?thesis by (simp add: generatePathPointsForMap_def)
next
  case (Some gate)
  show ?thesis
  proof (cases "gate = []")
    case True
    with Some assms show ?thesis by (simp add: generatePathPointsForMap_def)
  next
    case False
    let ?p0 = "case getPointById store gate of Some startPoint \<Rightarrow> [startPoint] | None \<Rightarrow> []"
    have "\<forall>r\<in>set ?p0. r < length store"
      by (cases "getPointById store gate") (auto dest: getPointById_Some)
    then have "\<forall>r\<in>set (pushInstructions store instructions ?p0). r < length store"
      by (rule pushInstructions_valid)
    with Some False assms show ?thesis
      by (auto simp: generatePathPointsForMap_def Let_def)
  qed
qed

lemma generate_cumulative:
  assumes "generatePathPointsForMap store instructions entryGateId = (store', instructions', points)"
    and "distinct points" and "k < length points"
  shows "cumulativeDistance (store' ! (points ! k)) = Some (pathLengthUpTo store points k)"
proof -
  from generate_store_points [OF assms(1)] assms(3)
  have s: "store' = assignCumulativeDistances store points 0 0"
    and v: "\<forall>r\<in>set points. r < length store" by auto
  show ?thesis
    unfolding s pathLengthUpTo_def
    using acd_cumulative [OF assms(2) v _ assms(3), of 0 0]
    by (simp add: atLeast0LessThan)
qed

text \<open>
  C1, amended. When no point occurs twice in the materialized path, the cumulative
  distances read from its points start at 0, each is the previous one plus the Euclidean
  distance between the two points, and the sequence is non-decreasing. The annotation is
  stored in the shared point objects, so the hypothesis is needed: a point visited twice
  carries the value of its last visit at both positions.
\<close>

theorem materializedPath_cumulativeDistance:
  assumes "path = materializedPath store instructions entryGateId"
    and "distinct (map pt_id path)"
  shows "\<exists>cum. map cumulativeDistance path = map Some cum
           \<and> (cum \<noteq> [] \<longrightarrow> cum ! 0 = 0)
           \<and> (\<forall>i. 0 < i \<and> i < length cum \<longrightarrow>
                  cum ! i = cum ! (i - 1) + getDistanceBetweenPoints (path ! (i - 1)) (path ! i))
           \<and> sorted cum"
proof -
  obtain store' instructions' points where
    g: "generatePathPointsForMap store instructions entryGateId = (store', instructions', points)"
    by (cases "generatePathPointsForMap store instructions entryGateId") auto
  then have path: "path = deref store' points"
    using assms(1) by (simp add: materializedPath_def)
  have d: "distinct points"
    using assms(2) unfolding path deref_def by (simp add: distinct_map)
  let ?cum = "map (pathLengthUpTo store points) [0..<length points]"
  have 1: "map cumulativeDistance path = map Some ?cum"
    unfolding path deref_def
    by (rule nth_equalityI) (simp_all add: generate_cumulative [OF g d])
  have 2: "?cum \<noteq> [] \<longrightarrow> ?cum ! 0 = 0"
    by (cases points) (simp_all add: pathLengthUpTo_def upt_conv_Cons del: upt_Suc)
  have 3: "\<forall>i. 0 < i \<and> i < length ?cum \<longrightarrow>
             ?cum ! i = ?cum ! (i - 1) + getDistanceBetweenPoints (path ! (i - 1)) (path ! i)"
  proof (intro allI impI)
    fix i assume i: "0 < i \<and> i < length ?cum"
    then obtain k where k: "i = Suc k" by (cases i) auto
    from generate_store_points [OF g] i
    have s: "store' = assignCumulativeDistances store points 0 0" by auto
    show "?cum ! i = ?cum ! (i - 1) + getDistanceBetweenPoints (path ! (i - 1)) (path ! i)"
      using i unfolding k path deref_def s
      by (simp add: pathLengthUpTo_Suc acd_distance)
  qed
  have 4: "sorted ?cum"
    by (simp add: sorted_iff_nth_mono pathLengthUpTo_mono)
  from 1 2 3 4 show ?thesis by blast
qed

lemma findIndex_None: "findIndex P xs = None \<longleftrightarrow> (\<forall>x\<in>set xs. \<not> P x)"
  by (induction xs) auto

lemma findIndex_first: "findIndex P xs = Some r \<Longrightarrow> j < r \<Longrightarrow> \<not> P (xs ! j)"
proof (induction xs arbitrary: r j)
  case Nil
  then show ?case by simp
next
  case (Cons x xs)
  then show ?case by (cases j) (auto split: if_splits)
qed

lemma getPointById_None:
  "getPointById store i = None \<longleftrightarrow> (\<forall>p\<in>set store. pt_id p \<noteq> i)"
  by (simp add: getPointById_def findIndex_None)

lemma getPointById_first:
  "getPointById store i = Some r \<Longrightarrow> j < r \<Longrightarrow> pt_id (store ! j) \<noteq> i"
  unfolding getPointById_def by (drule findIndex_first) auto

lemma map_filter_app:
  "List.map_filter f (xs @ ys) = List.map_filter f xs @ List.map_filter f ys"
  by (simp add: List.map_filter_def)

lemma pushPathNodes_eq:
  "pushPathNodes store nodes points = points @ List.map_filter (getPointById store) nodes"
  by (induction nodes arbitrary: points) (simp_all add: map_filter_simps split: option.splits)

lemma pushInstructions_eq:
  "pushInstructions store instructions points
     = points @ List.map_filter (getPointById store) (routePointIds instructions)"
proof (induction instructions arbitrary: points)
  case Nil
  show ?case by (simp add: routePointIds_def map_filter_simps)
next
  case (Cons instruction rest)
  show ?case
    using Cons.IH
    by (simp add: routePointIds_def Let_def pushPathNodes_eq map_filter_app map_filter_simps
        split: option.splits)
qed

lemma deref_ids:
  "map pt_id (deref (assignCumulativeDistances store points i cur) points) = map pt_id (deref store points)"
  by (simp add: deref_def acd_pt_id)

lemma resolved_ids:
  "map pt_id (deref store (List.map_filter (getPointById store) ids))
     = filter (\<lambda>i. \<exists>p\<in>set store. pt_id p = i) ids"
proof (induction ids)
  case Nil
  show ?case by (simp add: deref_def map_filter_simps)
next
  case (Cons i ids)
  show ?case
  proof (cases "getPointById store i")
    case None
    then have "\<not> (\<exists>p\<in>set store. pt_id p = i)" by (simp add: getPointById_None)
    with None Cons.IH show ?thesis by (simp add: map_filter_simps)
  next
    case (Some r)
    then have "\<exists>p\<in>set store. pt_id p = i"
      using getPointById_None [of store i] by auto
    with Some Cons.IH getPointById_Some [OF Some] show ?thesis
      by (simp add: map_filter_simps deref_def)
  qed
qed

lemma resolved_first:
  "r \<in> set (List.map_filter (getPointById store) ids) \<Longrightarrow>
   r < length store \<and> (\<forall>j<r. pt_id (store ! j) \<noteq> pt_id (store ! r))"
proof -
  assume "r \<in> set (List.map_filter (getPointById store) ids)"
  then obtain i where "getPointById store i = Some r"
    by (auto simp: List.map_filter_def)
  with getPointById_Some [OF this] getPointById_first [OF this] show ?thesis by auto
qed

text \<open>
  C4, amended. Without a gate id, and with the empty gate id, the materializer returns
  the empty path and leaves the table and the instructions as they are. With a gate id
  that no point of the table has, it skips the start point only: the ids of the path are
  the ids that the instructions name (path nodes, then target, instruction by
  instruction) that some point of the table has, in that order, so the path is empty
  exactly when the table has none of them. Every reference of the path is an object of
  the table, the first one with its id: an id that does not resolve is left out, and the
  loop that writes the distances reads and writes existing objects only.
\<close>

theorem generatePathPointsForMap_unresolved_gate:
  "(entryGateId = None \<or> entryGateId = Some [] \<longrightarrow>
      generatePathPointsForMap store instructions entryGateId = (store, instructions, []))
   \<and> (\<forall>gate. entryGateId = Some gate \<and> gate \<noteq> [] \<and> (\<forall>p\<in>set store. pt_id p \<noteq> gate) \<longrightarrow>
        snd (snd (generatePathPointsForMap store instructions entryGateId))
          = List.map_filter (getPointById store) (routePointIds instructions)
        \<and> (\<forall>r\<in>set (snd (snd (generatePathPointsForMap store instructions entryGateId))).
              r < length store \<and> (\<forall>j<r. pt_id (store ! j) \<noteq> pt_id (store ! r)))
        \<and> map pt_id (materializedPath store instructions entryGateId)
          = filter (\<lambda>i. \<exists>p\<in>set store. pt_id p = i) (routePointIds instructions)
        \<and> (materializedPath store instructions entryGateId = [] \<longleftrightarrow>
             (\<forall>i\<in>set (routePointIds instructions). \<forall>p\<in>set store. pt_id p \<noteq> i)))"
proof -
  have absent: "generatePathPointsForMap store instructions entryGateId = (store, instructions, [])"
    if "entryGateId = None \<or> entryGateId = Some []"
    using that by (auto simp: generatePathPointsForMap_def)
  have unresolved:
    "snd (snd (generatePathPointsForMap store instructions entryGateId))
          = List.map_filter (getPointById store) (routePointIds instructions)
        \<and> (\<forall>r\<in>set (snd (snd (generatePathPointsForMap store instructions entryGateId))).
              r < length store \<and> (\<forall>j<r. pt_id (store ! j) \<noteq> pt_id (store ! r)))
        \<and> map pt_id (materializedPath store instructions entryGateId)
          = filter (\<lambda>i. \<exists>p\<in>set store. pt_id p = i) (routePointIds instructions)
        \<and> (materializedPath store instructions entryGateId = [] \<longleftrightarrow>
             (\<forall>i\<in>set (routePointIds instructions). \<forall>p\<in>set store. pt_id p \<noteq> i))"
    if g: "entryGateId = Some gate" "gate \<noteq> []" "\<forall>p\<in>set store. pt_id p \<noteq> gate" for gate
  proof -
    let ?points = "List.map_filter (getPointById store) (routePointIds instructions)"
    have n: "getPointById store gate = None"
      using g(3) by (simp add: getPointById_None)
    have gen: "generatePathPointsForMap store instructions entryGateId
                 = (assignCumulativeDistances store ?points 0 0,
                    map (annotateInstruction (assignCumulativeDistances store ?points 0 0) ?points)
                      instructions,
                    ?points)"
      using g(1,2) n
      by (simp add: generatePathPointsForMap_def Let_def pushInstructions_eq)
    have ids: "map pt_id (materializedPath store instructions entryGateId)
                 = filter (\<lambda>i. \<exists>p\<in>set store. pt_id p = i) (routePointIds instructions)"
      by (simp add: materializedPath_def gen deref_ids resolved_ids)
    have "materializedPath store instructions entryGateId = []
            \<longleftrightarrow> map pt_id (materializedPath store instructions entryGateId) = []"
      by simp
    also have "\<dots> \<longleftrightarrow> (\<forall>i\<in>set (routePointIds instructions). \<forall>p\<in>set store. pt_id p \<noteq> i)"
      unfolding ids by (auto simp: filter_empty_conv)
    finally have empty: "materializedPath store instructions entryGateId = [] \<longleftrightarrow>
             (\<forall>i\<in>set (routePointIds instructions). \<forall>p\<in>set store. pt_id p \<noteq> i)" .
    from gen ids empty resolved_first [of _ store "routePointIds instructions"]
    show ?thesis by simp
  qed
  from absent unresolved show ?thesis by blast
qed

lemma sqrt_400: "sqrt 400 = 20"
  using real_sqrt_abs [of 20] by simp

lemma sqrt_2500: "sqrt 2500 = 50"
  using real_sqrt_abs [of 50] by simp

text \<open>
  The gate id \<open>gate-x\<close> is not in the table, and the path materialized for the route from
  gate A to platform 1 with it has nine points.
\<close>

theorem unresolved_gate_counterexample:
  "getPointById mockStationLayout_points ''gate-x'' = None
   \<and> map pt_id (materializedPath mockStationLayout_points route_gate_a_platform_1 (Some ''gate-x''))
       = [''node-ga-1'', ''node-ga-2'', ''node-ga-wh-1'', ''waiting-hall'', ''node-wh-e1-1'',
          ''escalator-1'', ''node-e1-p1-1'', ''node-e1-p1-2'', ''platform-1'']"
proof -
  have n: "getPointById mockStationLayout_points ''gate-x'' = None"
    by (simp add: tbl getPointById_def)
  have p: "pushInstructions mockStationLayout_points route_gate_a_platform_1 [] = [9, 10, 11, 6, 12, 7, 13, 14, 2]"
    by (simp add: tbl route_gate_a_platform_1_def mkInstruction_def getPointById_def)
  show ?thesis
    by (simp add: n p materializedPath_def generatePathPointsForMap_def Let_def deref_ids)
       (simp add: deref_def tbl)
qed

lemma acd_step:
  "i < length points \<Longrightarrow>
   assignCumulativeDistances store points i cur =
     assignCumulativeDistances
       (store[points ! i := (store ! (points ! i))\<lparr>cumulativeDistance :=
          Some (if 0 < i
                then cur + getDistanceBetweenPoints (store ! (points ! (i - 1))) (store ! (points ! i))
                else cur)\<rparr>])
       points (Suc i)
       (if 0 < i
        then cur + getDistanceBetweenPoints (store ! (points ! (i - 1))) (store ! (points ! i))
        else cur)"
  by (subst assignCumulativeDistances.simps) (simp add: Let_def)

lemma acd_done:
  "\<not> i < length points \<Longrightarrow> assignCumulativeDistances store points i cur = store"
  by (subst assignCumulativeDistances.simps) simp

lemma tbl_length: "length mockStationLayout_points = 24"
  by (simp add: tbl)

lemma tbl_0: "mockStationLayout_points ! 0 = mkPoint (''gate-a'', Some ''Entry Gate A'', Gate, 50, 250)"
  by (simp add: mockStationLayout_points_def rawStationPoints_def)

lemma tbl_9: "mockStationLayout_points ! 9 = mkPoint (''node-ga-1'', Some ''Node GA-1'', PathNode, 70, 250)"
  by (simp add: mockStationLayout_points_def rawStationPoints_def)

text \<open>
  A route that returns to its gate: the gate object is annotated twice, and the path
  reads 40, 20, 40.
\<close>

theorem cumulativeDistance_counterexample:
  "map pt_id (materializedPath mockStationLayout_points revisiting_route (Some ''gate-a''))
     = [''gate-a'', ''node-ga-1'', ''gate-a'']
   \<and> map cumulativeDistance (materializedPath mockStationLayout_points revisiting_route (Some ''gate-a''))
     = [Some 40, Some 20, Some 40]"
proof -
  have g: "getPointById mockStationLayout_points ''gate-a'' = Some 0"
    by (simp add: tbl getPointById_def)
  have p: "pushInstructions mockStationLayout_points revisiting_route [0] = [0, 9, 0]"
    by (simp add: tbl revisiting_route_def mkInstruction_def getPointById_def)
  have a: "assignCumulativeDistances mockStationLayout_points [0, 9, 0] 0 0
             = mockStationLayout_points
                 [0 := (mockStationLayout_points ! 0)\<lparr>cumulativeDistance := Some 40\<rparr>,
                  9 := (mockStationLayout_points ! 9)\<lparr>cumulativeDistance := Some 20\<rparr>]"
    by (simp add: acd_step acd_done tbl_length tbl_0 tbl_9 mkPoint_def
        getDistanceBetweenPoints_def sqrt_400 list_update_swap)
  show ?thesis
    by (simp add: g p a materializedPath_def generatePathPointsForMap_def deref_def Let_def
        tbl_length tbl_0 tbl_9 mkPoint_def)
qed

section \<open>Position simulator: properties\<close>

lemma distanceToAdvance_value: "distanceToAdvance = 1 / 10"
  by (simp add: distanceToAdvance_def simulationSpeed_def simulationIntervalDuration_def)

lemma findSegment_Some:
  "findSegment path traveled = Some (p1, p2, fraction) \<Longrightarrow>
   \<exists>i. Suc i < length path \<and> p1 = path ! i \<and> p2 = path ! Suc i
       \<and> orZero (cumulativeDistance p1) \<le> traveled
       \<and> traveled \<le> orZero (cumulativeDistance p2)
       \<and> fraction = (if orZero (cumulativeDistance p2) - orZero (cumulativeDistance p1) > 0
                      then js_div (traveled - orZero (cumulativeDistance p1))
                             (orZero (cumulativeDistance p2) - orZero (cumulativeDistance p1))
                      else Some 0)"
proof (induction path traveled rule: findSegment.induct)
  case (1 q1 q2 rest traveled)
  show ?case
  proof (cases "traveled \<ge> orZero (cumulativeDistance q1) \<and> traveled \<le> orZero (cumulativeDistance q2)")
    case True
    with "1.prems" have "p1 = q1" "p2 = q2"
      and "fraction = (if orZero (cumulativeDistance q2) - orZero (cumulativeDistance q1) > 0
                       then js_div (traveled - orZero (cumulativeDistance q1))
                              (orZero (cumulativeDistance q2) - orZero (cumulativeDistance q1))
                       else Some 0)"
      by (auto simp: Let_def)
    with True show ?thesis by (intro exI [of _ 0]) simp
  next
    case False
    with "1.prems" have "findSegment (q2 # rest) traveled = Some (p1, p2, fraction)"
      by (simp add: Let_def)
    from "1.IH" [OF refl refl False this] obtain i where
      "Suc i < length (q2 # rest)" "p1 = (q2 # rest) ! i" "p2 = (q2 # rest) ! Suc i"
      "orZero (cumulativeDistance p1) \<le> traveled" "traveled \<le> orZero (cumulativeDistance p2)"
      "fraction = (if orZero (cumulativeDistance p2) - orZero (cumulativeDistance p1) > 0
                      then js_div (traveled - orZero (cumulativeDistance p1))
                             (orZero (cumulativeDistance p2) - orZero (cumulativeDistance p1))
                      else Some 0)"
      by blast
    then show ?thesis by (intro exI [of _ "Suc i"]) simp
  qed
qed simp_all

lemma guarded_fraction:
  assumes "s \<le> t" "t \<le> e"
  shows "\<exists>f. (if e - s > 0 then js_div (t - s) (e - s) else Some 0) = Some f
             \<and> 0 \<le> f \<and> f \<le> 1
             \<and> (0 < e - s \<longrightarrow> f = (t - s) / (e - s))
             \<and> (e - s = 0 \<longrightarrow> f = 0)"
  using assms by (auto simp: js_div_def divide_le_eq)

text \<open>Frame of the helper steps of the callback.\<close>

lemma moveUser_frame:
  "layout_points (moveUser path t s) = layout_points s"
  "layout_paths (moveUser path t s) = layout_paths s"
  "simulationIntervalRef (moveUser path t s) = simulationIntervalRef s"
  "isSimulating (moveUser path t s) = isSimulating s"
  "totalDistanceTraveledRef (moveUser path t s) = totalDistanceTraveledRef s"
  "currentInstructionIdxRef (moveUser path t s) = currentInstructionIdxRef s"
  "currentInstructionIndex (moveUser path t s) = currentInstructionIndex s"
  "speech (moveUser path t s) = speech s"
  by (simp_all add: moveUser_def split: option.splits prod.splits)

lemma advanceInstruction_frame:
  "layout_points (advanceInstruction insts l s) = layout_points s"
  "layout_paths (advanceInstruction insts l s) = layout_paths s"
  "simulationIntervalRef (advanceInstruction insts l s) = simulationIntervalRef s"
  "isSimulating (advanceInstruction insts l s) = isSimulating s"
  "totalDistanceTraveledRef (advanceInstruction insts l s) = totalDistanceTraveledRef s"
  "userPosition (advanceInstruction insts l s) = userPosition s"
  "userBearing (advanceInstruction insts l s) = userBearing s"
  by (simp_all add: advanceInstruction_def speak_def Let_def split: option.splits)

lemma advanceInstruction_idx:
  "currentInstructionIdxRef (advanceInstruction insts l s) =
     (if currentInstructionIdxRef s < length insts
         \<and> (\<exists>target. cumulativeDistanceToTarget (insts ! currentInstructionIdxRef s) = Some target
                      \<and> target \<le> totalDistanceTraveledRef s)
      then currentInstructionIdxRef s + 1 else currentInstructionIdxRef s)"
  by (auto simp: advanceInstruction_def speak_def Let_def split: option.splits)

lemma advanceInstruction_index:
  "currentInstructionIndex (advanceInstruction insts l s) =
     (if currentInstructionIdxRef s < length insts
         \<and> (\<exists>target. cumulativeDistanceToTarget (insts ! currentInstructionIdxRef s) = Some target
                      \<and> target \<le> totalDistanceTraveledRef s)
      then currentInstructionIdxRef s + 1 else currentInstructionIndex s)"
  by (auto simp: advanceInstruction_def speak_def Let_def split: option.splits)

lemma tick_complete:
  assumes "simulationIntervalRef s = Some iv"
    and "totalDistanceTraveledRef s + distanceToAdvance
           \<ge> totalPathLength (deref (layout_points s) (iv_pathPointsForMap iv))"
  shows "tick s =
           s\<lparr>totalDistanceTraveledRef := totalPathLength (deref (layout_points s) (iv_pathPointsForMap iv)),
             speech := speech s @ [Speak (destinationMessage (iv_pnrDetails iv)) (iv_language iv), CancelSpeech],
             simulationIntervalRef := None,
             isSimulating := False,
             userBearing := None\<rparr>"
  using assms
  by (simp add: tick_def intervalCallback_def Let_def cancelSimulation_def speak_def cancelSpeech_def)

lemma tick_running:
  assumes "simulationIntervalRef s = Some iv"
    and "totalDistanceTraveledRef s + distanceToAdvance
           < totalPathLength (deref (layout_points s) (iv_pathPointsForMap iv))"
  shows "tick s =
           advanceInstruction (instructionsOf (layout_paths s) (iv_pathInstructions iv)) (iv_language iv)
             (moveUser (deref (layout_points s) (iv_pathPointsForMap iv))
                (totalDistanceTraveledRef s + distanceToAdvance)
                (s\<lparr>totalDistanceTraveledRef := totalDistanceTraveledRef s + distanceToAdvance\<rparr>))"
  using assms by (simp add: tick_def intervalCallback_def Let_def)

lemma tick_stopped: "simulationIntervalRef s = None \<Longrightarrow> tick s = s"
  by (simp add: tick_def)

lemma funpow_tick_stopped: "simulationIntervalRef s = None \<Longrightarrow> (tick ^^ k) s = s"
  by (induction k) (simp_all add: tick_stopped)

text \<open>While the accumulator stays below the length of the path, the ticks only add to it.\<close>

lemma ticks_before_end:
  assumes iv: "simulationIntervalRef s0 = Some iv"
    and tot: "totalPathLength (deref (layout_points s0) (iv_pathPointsForMap iv)) = len"
    and n: "totalDistanceTraveledRef s0 + real n / 10 < len"
  shows "simulationIntervalRef ((tick ^^ n) s0) = Some iv
         \<and> layout_points ((tick ^^ n) s0) = layout_points s0
         \<and> totalDistanceTraveledRef ((tick ^^ n) s0) = totalDistanceTraveledRef s0 + real n / 10"
  using n
proof (induction n)
  case 0
  show ?case using iv by simp
next
  case (Suc n)
  let ?s = "(tick ^^ n) s0"
  from Suc.prems have "totalDistanceTraveledRef s0 + real n / 10 < len"
    by (simp add: add_divide_distrib)
  from Suc.IH [OF this] have
    ih: "simulationIntervalRef ?s = Some iv" "layout_points ?s = layout_points s0"
      "totalDistanceTraveledRef ?s = totalDistanceTraveledRef s0 + real n / 10"
    by simp_all
  have lt: "totalDistanceTraveledRef ?s + distanceToAdvance
              < totalPathLength (deref (layout_points ?s) (iv_pathPointsForMap iv))"
    using Suc.prems by (simp add: ih tot distanceToAdvance_value add_divide_distrib)
  show ?case
    using ih by (simp add: tick_running [OF ih(1) lt] advanceInstruction_frame moveUser_frame
        distanceToAdvance_value add_divide_distrib)
qed


lemma moveUser_position:
  "userPosition (moveUser path t s) = userPosition s
   \<or> (\<exists>i a b f. Suc i < length path \<and> latLng (path ! i) = Some a \<and> latLng (path ! Suc i) = Some b
         \<and> 0 \<le> f \<and> f \<le> 1 \<and> userPosition (moveUser path t s) = Some (getIntermediateLatLng a b f))"
proof (cases "findSegment path t")
  case None
  then show ?thesis by (simp add: moveUser_def)
next
  case (Some seg)
  obtain p1 p2 fraction where seg: "seg = (p1, p2, fraction)" by (cases seg) auto
  from findSegment_Some [OF Some [unfolded seg]] obtain i where
    i: "Suc i < length path" "p1 = path ! i" "p2 = path ! Suc i"
    and r: "orZero (cumulativeDistance p1) \<le> t" "t \<le> orZero (cumulativeDistance p2)"
    and f: "fraction = (if orZero (cumulativeDistance p2) - orZero (cumulativeDistance p1) > 0
                      then js_div (t - orZero (cumulativeDistance p1))
                             (orZero (cumulativeDistance p2) - orZero (cumulativeDistance p1))
                      else Some 0)"
    by blast
  from guarded_fraction [OF r] f obtain q where
    fr: "fraction = Some q" "0 \<le> q" "q \<le> 1" by auto
  show ?thesis
  proof (cases "latLng p1")
    case None
    then show ?thesis using Some seg by (simp add: moveUser_def)
  next
    case a: (Some a)
    show ?thesis
    proof (cases "latLng p2")
      case None
      then show ?thesis using Some seg a by (simp add: moveUser_def)
    next
      case b: (Some b)
      have "userPosition (moveUser path t s) = Some (getIntermediateLatLng a b q)"
        using Some seg a b fr(1) by (simp add: moveUser_def)
      with i a b fr show ?thesis by blast
    qed
  qed
qed

text \<open>
  C2. A tick whose advanced accumulator reaches the total path length sets the
  accumulator to that length, speaks the destination message, clears the interval and
  leaves the simulating state; the speech is then cancelled by \<open>cancelSimulation\<close>, the user
  position is not touched, and every later timer period finds the interval cleared, so
  the completion happens once. On every tick the user position is either unchanged or a
  point of a segment of the path, at a fraction between 0 and 1.
\<close>

theorem tick_reaches_destination:
  assumes "simulationIntervalRef s = Some iv"
    and "path = deref (layout_points s) (iv_pathPointsForMap iv)"
  shows "(totalDistanceTraveledRef s + distanceToAdvance \<ge> totalPathLength path \<longrightarrow>
            totalDistanceTraveledRef (tick s) = totalPathLength path
            \<and> speech (tick s)
                = speech s @ [Speak (destinationMessage (iv_pnrDetails iv)) (iv_language iv), CancelSpeech]
            \<and> simulationIntervalRef (tick s) = None
            \<and> \<not> isSimulating (tick s)
            \<and> userPosition (tick s) = userPosition s
            \<and> (\<forall>k. (tick ^^ k) (tick s) = tick s))
         \<and> (userPosition (tick s) = userPosition s
             \<or> (\<exists>i a b f. Suc i < length path
                   \<and> latLng (path ! i) = Some a \<and> latLng (path ! Suc i) = Some b
                   \<and> 0 \<le> f \<and> f \<le> 1
                   \<and> userPosition (tick s) = Some (getIntermediateLatLng a b f)))"
proof (cases "totalDistanceTraveledRef s + distanceToAdvance \<ge> totalPathLength path")
  case True
  have t: "tick s =
           s\<lparr>totalDistanceTraveledRef := totalPathLength path,
             speech := speech s @ [Speak (destinationMessage (iv_pnrDetails iv)) (iv_language iv), CancelSpeech],
             simulationIntervalRef := None,
             isSimulating := False,
             userBearing := None\<rparr>"
    using tick_complete [OF assms(1)] True unfolding assms(2) by simp
  have "simulationIntervalRef (tick s) = None" by (simp add: t)
  then have "\<forall>k. (tick ^^ k) (tick s) = tick s"
    by (simp add: funpow_tick_stopped)
  then show ?thesis using True by (simp add: t)
next
  case False
  then have lt: "totalDistanceTraveledRef s + distanceToAdvance
                   < totalPathLength (deref (layout_points s) (iv_pathPointsForMap iv))"
    unfolding assms(2) by simp
  show ?thesis
    using False
      moveUser_position [of path "totalDistanceTraveledRef s + distanceToAdvance"
        "s\<lparr>totalDistanceTraveledRef := totalDistanceTraveledRef s + distanceToAdvance\<rparr>"]
    unfolding tick_running [OF assms(1) lt] assms(2) [symmetric]
    by (simp add: advanceInstruction_frame)
qed

text \<open>
  C3, amended. On a tick that does not reach the end of the path, if the target
  distance of the current instruction is set and at most the advanced accumulator, the
  simulator's instruction index grows by exactly one, whatever other targets the
  accumulator has passed, and the displayed index is set to it. On every tick the
  simulator's index grows by at most one.
\<close>

theorem tick_advances_one_instruction:
  "(simulationIntervalRef s = Some iv
      \<and> totalDistanceTraveledRef s + distanceToAdvance
          < totalPathLength (deref (layout_points s) (iv_pathPointsForMap iv))
      \<and> currentInstructionIdxRef s < length (instructionsOf (layout_paths s) (iv_pathInstructions iv))
      \<and> cumulativeDistanceToTarget
            (instructionsOf (layout_paths s) (iv_pathInstructions iv) ! currentInstructionIdxRef s)
          = Some target
      \<and> target \<le> totalDistanceTraveledRef s + distanceToAdvance
    \<longrightarrow> currentInstructionIdxRef (tick s) = currentInstructionIdxRef s + 1
        \<and> currentInstructionIndex (tick s) = currentInstructionIdxRef s + 1)
   \<and> currentInstructionIdxRef s \<le> currentInstructionIdxRef (tick s)
   \<and> currentInstructionIdxRef (tick s) \<le> currentInstructionIdxRef s + 1"
proof -
  have bound: "currentInstructionIdxRef s \<le> currentInstructionIdxRef (tick s)
               \<and> currentInstructionIdxRef (tick s) \<le> currentInstructionIdxRef s + 1"
  proof (cases "simulationIntervalRef s")
    case None
    then show ?thesis by (simp add: tick_stopped)
  next
    case (Some iv')
    show ?thesis
    proof (cases "totalDistanceTraveledRef s + distanceToAdvance
                    \<ge> totalPathLength (deref (layout_points s) (iv_pathPointsForMap iv'))")
      case True
      then show ?thesis by (simp add: tick_complete [OF Some])
    next
      case False
      then have "totalDistanceTraveledRef s + distanceToAdvance
                    < totalPathLength (deref (layout_points s) (iv_pathPointsForMap iv'))" by simp
      from tick_running [OF Some this] show ?thesis
        by (simp add: advanceInstruction_idx moveUser_frame)
    qed
  qed
  have step: "currentInstructionIdxRef (tick s) = currentInstructionIdxRef s + 1
              \<and> currentInstructionIndex (tick s) = currentInstructionIdxRef s + 1"
    if a: "simulationIntervalRef s = Some iv"
      and b: "totalDistanceTraveledRef s + distanceToAdvance
          < totalPathLength (deref (layout_points s) (iv_pathPointsForMap iv))"
      and c: "currentInstructionIdxRef s < length (instructionsOf (layout_paths s) (iv_pathInstructions iv))"
      and d: "cumulativeDistanceToTarget
            (instructionsOf (layout_paths s) (iv_pathInstructions iv) ! currentInstructionIdxRef s)
          = Some target"
      and e: "target \<le> totalDistanceTraveledRef s + distanceToAdvance"
    using c d e unfolding tick_running [OF a b]
    by (simp add: advanceInstruction_idx advanceInstruction_index moveUser_frame)
  from bound step show ?thesis by blast
qed

text \<open>
  C7. When a tick locates the segment that holds the accumulator, the length of that
  segment is not negative and the fraction is a number: it is the quotient
  \<open>(accumulator - segmentStart) / segmentLength\<close>, formed by \<open>js_div\<close> with a positive divisor,
  when the length is positive, and it is 0, with no division, when the length is 0. The
  fraction lies between 0 and 1 and the user is placed at the interpolated point.
\<close>

theorem tick_fraction_guarded:
  assumes "simulationIntervalRef s = Some iv"
    and "path = deref (layout_points s) (iv_pathPointsForMap iv)"
    and "traveled = totalDistanceTraveledRef s + distanceToAdvance"
    and "traveled < totalPathLength path"
    and "findSegment path traveled = Some (p1, p2, fraction)"
    and "segmentStartDist = orZero (cumulativeDistance p1)"
    and "segmentLength = orZero (cumulativeDistance p2) - segmentStartDist"
  shows "(\<exists>i. Suc i < length path \<and> p1 = path ! i \<and> p2 = path ! Suc i)
         \<and> 0 \<le> segmentLength
         \<and> fraction \<noteq> None
         \<and> (0 < segmentLength \<longrightarrow>
               fraction = js_div (traveled - segmentStartDist) segmentLength
               \<and> fraction = Some ((traveled - segmentStartDist) / segmentLength))
         \<and> (segmentLength = 0 \<longrightarrow> fraction = Some 0)
         \<and> (\<exists>f. fraction = Some f \<and> 0 \<le> f \<and> f \<le> 1
               \<and> (\<forall>a b. latLng p1 = Some a \<and> latLng p2 = Some b \<longrightarrow>
                     userPosition (tick s) = Some (getIntermediateLatLng a b f)))"
proof -
  from findSegment_Some [OF assms(5)] obtain i where
    i: "Suc i < length path" "p1 = path ! i" "p2 = path ! Suc i"
    and r: "orZero (cumulativeDistance p1) \<le> traveled" "traveled \<le> orZero (cumulativeDistance p2)"
    and f: "fraction = (if orZero (cumulativeDistance p2) - orZero (cumulativeDistance p1) > 0
                      then js_div (traveled - orZero (cumulativeDistance p1))
                             (orZero (cumulativeDistance p2) - orZero (cumulativeDistance p1))
                      else Some 0)"
    by blast
  from guarded_fraction [OF r] f obtain q where
    fr: "fraction = Some q" "0 \<le> q" "q \<le> 1"
      "0 < orZero (cumulativeDistance p2) - orZero (cumulativeDistance p1) \<longrightarrow>
         q = (traveled - orZero (cumulativeDistance p1))
             / (orZero (cumulativeDistance p2) - orZero (cumulativeDistance p1))"
      "orZero (cumulativeDistance p2) - orZero (cumulativeDistance p1) = 0 \<longrightarrow> q = 0"
    by auto
  have len: "0 \<le> segmentLength" using r assms(6,7) by simp
  have quot: "0 < segmentLength \<longrightarrow>
                fraction = js_div (traveled - segmentStartDist) segmentLength"
    using f unfolding assms(6,7) by simp
  have pos: "userPosition (tick s) = Some (getIntermediateLatLng a b q)"
    if "latLng p1 = Some a" "latLng p2 = Some b" for a b
    using that assms(4,5) fr(1)
    unfolding tick_running [OF assms(1) assms(4) [unfolded assms(2,3)]] assms(2,3)
    by (simp add: advanceInstruction_frame moveUser_def)
  from i len quot fr pos show ?thesis
    unfolding assms(6,7) by auto
qed

lemmas effect_defs = liveLocationDeps_def positionDeps_def selectionDeps_def runEffects_def
  liveLocationEffect_def positionEffect_def cancelSimulation_def cancelSpeech_def Let_def

lemma enable_live_location:
  assumes "\<not> liveLocationEnabled s"
  shows "\<exists>r. setLiveLocationEnabled (Suc (Suc (Suc k))) True supported watchId s = Some r
           \<and> liveLocationEnabled r
           \<and> simulationIntervalRef r = None \<and> \<not> isSimulating r \<and> userBearing r = None
           \<and> speech r = speech s @ (if userPosition s = actualUserLatLng s
                                     then [CancelSpeech] else [CancelSpeech, CancelSpeech])
           \<and> userPosition r = actualUserLatLng s
           \<and> totalDistanceTraveledRef r = totalDistanceTraveledRef s
           \<and> currentInstructionIdxRef r = currentInstructionIdxRef s
           \<and> currentInstructionIndex r = currentInstructionIndex s"
  using assms
  by (cases "actualUserLatLng s"; cases "userPosition s = actualUserLatLng s"; cases supported;
      cases "isSimulating s")
     (simp_all add: setLiveLocationEnabled_def effect_defs)

lemma settle_not_live:
  assumes "\<not> liveLocationEnabled r" "actualUserLatLng r = None"
    and "selectionDeps r = selectionDeps prev"
  shows "\<exists>r'. settle (Suc (Suc (Suc k))) supported watchId prev r = Some r'
           \<and> totalDistanceTraveledRef r' = totalDistanceTraveledRef r
           \<and> currentInstructionIdxRef r' = currentInstructionIdxRef r
           \<and> currentInstructionIndex r' = currentInstructionIndex r
           \<and> pnrDetails r' = pnrDetails r
           \<and> selectedEntryGateId r' = selectedEntryGateId r
           \<and> simulationIntervalRef r' = simulationIntervalRef r
           \<and> isSimulating r' = isSimulating r
           \<and> speech r' = speech r"
  using assms
  by (cases "liveLocationEnabled prev"; cases "userPosition r"; cases "isSimulating r";
      cases "pathPointsForMap r = []";
      cases "firstLatLng (layout_points r) (pathPointsForMap r)")
     (auto simp: effect_defs)

lemma handleEntryGateSelect_frame:
  "simulationIntervalRef (handleEntryGateSelect gateId s) = None"
  "\<not> isSimulating (handleEntryGateSelect gateId s)"
  "speech (handleEntryGateSelect gateId s) = speech s @ [CancelSpeech]"
  "userBearing (handleEntryGateSelect gateId s) = None"
  "totalDistanceTraveledRef (handleEntryGateSelect gateId s) = totalDistanceTraveledRef s"
  "currentInstructionIdxRef (handleEntryGateSelect gateId s) = currentInstructionIdxRef s"
  "currentInstructionIndex (handleEntryGateSelect gateId s) = 0"
  "pnrDetails (handleEntryGateSelect gateId s) = pnrDetails s"
  "selectedEntryGateId (handleEntryGateSelect gateId s) = Some gateId"
  "\<not> liveLocationEnabled (handleEntryGateSelect gateId s)"
  "actualUserLatLng (handleEntryGateSelect gateId s) = None"
  by (simp_all add: handleEntryGateSelect_def Let_def clearRoute_def
      cancelSimulation_def cancelSpeech_def split: option.splits prod.splits)

lemma handleRecalculateRoute_selected:
  assumes "selectedEntryGateId s = Some gateId" "gateId \<noteq> []" "pnrDetails s \<noteq> None"
  shows "handleRecalculateRoute s
           = (handleEntryGateSelect gateId
                ((cancelSimulation s)\<lparr>liveLocationEnabled := False, errorMessage := None\<rparr>))
              \<lparr>infoMessage := Some RouteRecalculated\<rparr>"
  using assms by (simp add: handleRecalculateRoute_def Let_def)

lemma handleRecalculateRoute_frame:
  assumes "selectedEntryGateId s = Some gateId" "gateId \<noteq> []" "pnrDetails s \<noteq> None"
  shows "totalDistanceTraveledRef (handleRecalculateRoute s) = totalDistanceTraveledRef s"
    "currentInstructionIdxRef (handleRecalculateRoute s) = currentInstructionIdxRef s"
    "currentInstructionIndex (handleRecalculateRoute s) = 0"
    "pnrDetails (handleRecalculateRoute s) = pnrDetails s"
    "selectedEntryGateId (handleRecalculateRoute s) = selectedEntryGateId s"
    "\<not> liveLocationEnabled (handleRecalculateRoute s)"
    "actualUserLatLng (handleRecalculateRoute s) = None"
    "simulationIntervalRef (handleRecalculateRoute s) = None"
    "\<not> isSimulating (handleRecalculateRoute s)"
  unfolding handleRecalculateRoute_selected [OF assms]
  using assms(1)
  by (simp_all add: handleEntryGateSelect_frame) (simp_all add: cancelSimulation_def cancelSpeech_def)

lemma recalculateRoute_selected:
  assumes "selectedEntryGateId s = Some gateId" "gateId \<noteq> []" "pnrDetails s \<noteq> None"
  shows "\<exists>r. recalculateRoute (Suc (Suc (Suc k))) supported watchId s = Some r
           \<and> simulationIntervalRef r = None \<and> \<not> isSimulating r
           \<and> totalDistanceTraveledRef r = totalDistanceTraveledRef s
           \<and> currentInstructionIdxRef r = currentInstructionIdxRef s
           \<and> currentInstructionIndex r = 0
           \<and> pnrDetails r = pnrDetails s
           \<and> selectedEntryGateId r = selectedEntryGateId s"
proof -
  note f = handleRecalculateRoute_frame [OF assms]
  have d: "selectionDeps (handleRecalculateRoute s) = selectionDeps s"
    by (simp add: selectionDeps_def f)
  from settle_not_live [OF f(6) f(7) d, of k supported watchId]
  show ?thesis unfolding recalculateRoute_def by (auto simp: f)
qed

lemma tick_frame:
  "pnrDetails (tick s) = pnrDetails s"
  "selectedEntryGateId (tick s) = selectedEntryGateId s"
  by (simp_all add: tick_def intervalCallback_def Let_def cancelSimulation_def cancelSpeech_def
      speak_def moveUser_def advanceInstruction_def split: option.splits prod.splits)

lemma funpow_tick_frame:
  "pnrDetails ((tick ^^ n) s) = pnrDetails s"
  "selectedEntryGateId ((tick ^^ n) s) = selectedEntryGateId s"
  by (induction n) (simp_all add: tick_frame)

lemma selectEntryGate_same:
  "selectedEntryGateId s = Some gateId \<Longrightarrow> selectEntryGate gateId s = handleEntryGateSelect gateId s"
  by (simp add: selectEntryGate_def Let_def handleEntryGateSelect_frame)

lemma three_le: "3 \<le> fuel \<Longrightarrow> \<exists>k. fuel = Suc (Suc (Suc k))"
  by presburger

text \<open>
  C6, amended. \<open>cancelSimulation\<close> clears the interval, leaves the simulating state, cancels
  the speech and clears the bearing; the accumulator and both instruction indices, the
  simulator's and the displayed one, stay as they are. Enabling live location comes to
  rest within three renders: the simulation is cancelled, once or, when the seeding effect
  replaces the user position, twice; the user position becomes the live one (none before
  a fix arrives); the accumulator and both indices stay. The gate handler cancels too and
  leaves the accumulator and the simulator's index, but it sets the displayed index to 0
  in every branch: picking the gate that is already selected, and Recalculate Route,
  change neither the PNR record nor the gate, so the selection effect does not run, and
  they leave the displayed index at 0 beside the simulator's index and the accumulator.
  The selection effect, which follows a change of the PNR record or of the selected gate,
  sets the accumulator and both indices to 0, and a start after a cancellation continues
  from the accumulator it finds.
\<close>

theorem cancelSimulation_keeps_progress:
  "simulationIntervalRef (cancelSimulation s) = None
   \<and> \<not> isSimulating (cancelSimulation s)
   \<and> speech (cancelSimulation s) = speech s @ [CancelSpeech]
   \<and> userBearing (cancelSimulation s) = None
   \<and> totalDistanceTraveledRef (cancelSimulation s) = totalDistanceTraveledRef s
   \<and> currentInstructionIdxRef (cancelSimulation s) = currentInstructionIdxRef s
   \<and> currentInstructionIndex (cancelSimulation s) = currentInstructionIndex s
   \<and> (\<not> liveLocationEnabled s \<and> 3 \<le> fuel \<longrightarrow>
        (\<exists>r. setLiveLocationEnabled fuel True supported watchId s = Some r
           \<and> liveLocationEnabled r
           \<and> simulationIntervalRef r = None \<and> \<not> isSimulating r \<and> userBearing r = None
           \<and> speech r = speech s @ (if userPosition s = actualUserLatLng s
                                     then [CancelSpeech] else [CancelSpeech, CancelSpeech])
           \<and> userPosition r = actualUserLatLng s
           \<and> totalDistanceTraveledRef r = totalDistanceTraveledRef s
           \<and> currentInstructionIdxRef r = currentInstructionIdxRef s
           \<and> currentInstructionIndex r = currentInstructionIndex s))
   \<and> simulationIntervalRef (handleEntryGateSelect gateId s) = None
   \<and> \<not> isSimulating (handleEntryGateSelect gateId s)
   \<and> speech (handleEntryGateSelect gateId s) = speech s @ [CancelSpeech]
   \<and> userBearing (handleEntryGateSelect gateId s) = None
   \<and> totalDistanceTraveledRef (handleEntryGateSelect gateId s) = totalDistanceTraveledRef s
   \<and> currentInstructionIdxRef (handleEntryGateSelect gateId s) = currentInstructionIdxRef s
   \<and> currentInstructionIndex (handleEntryGateSelect gateId s) = 0
   \<and> (selectedEntryGateId s = Some gateId \<longrightarrow>
        selectEntryGate gateId s = handleEntryGateSelect gateId s
        \<and> totalDistanceTraveledRef (selectEntryGate gateId s) = totalDistanceTraveledRef s
        \<and> currentInstructionIdxRef (selectEntryGate gateId s) = currentInstructionIdxRef s
        \<and> currentInstructionIndex (selectEntryGate gateId s) = 0)
   \<and> (selectedEntryGateId s = Some gateId \<and> gateId \<noteq> [] \<and> pnrDetails s \<noteq> None \<and> 3 \<le> fuel \<longrightarrow>
        (\<exists>r. recalculateRoute fuel supported watchId s = Some r
           \<and> simulationIntervalRef r = None \<and> \<not> isSimulating r
           \<and> pnrDetails r = pnrDetails s
           \<and> selectedEntryGateId r = selectedEntryGateId s
           \<and> totalDistanceTraveledRef r = totalDistanceTraveledRef s
           \<and> currentInstructionIdxRef r = currentInstructionIdxRef s
           \<and> currentInstructionIndex r = 0))
   \<and> totalDistanceTraveledRef (selectionEffect s) = 0
   \<and> currentInstructionIdxRef (selectionEffect s) = 0
   \<and> currentInstructionIndex (selectionEffect s) = 0
   \<and> (selectedEntryGateId s \<noteq> Some gateId \<longrightarrow>
        totalDistanceTraveledRef (selectEntryGate gateId s) = 0
        \<and> currentInstructionIdxRef (selectEntryGate gateId s) = 0
        \<and> currentInstructionIndex (selectEntryGate gateId s) = 0)
   \<and> (pnrDetails (lookupPNR p s) \<noteq> pnrDetails s \<longrightarrow>
        totalDistanceTraveledRef (lookupPNR p s) = 0
        \<and> currentInstructionIdxRef (lookupPNR p s) = 0
        \<and> currentInstructionIndex (lookupPNR p s) = 0)
   \<and> (userPosition s \<noteq> None \<and> totalDistanceTraveledRef s \<noteq> 0 \<longrightarrow>
        totalDistanceTraveledRef (startSimulation s) = totalDistanceTraveledRef s
        \<and> currentInstructionIdxRef (startSimulation s) = currentInstructionIdxRef s)"
proof -
  have c: "simulationIntervalRef (cancelSimulation s) = None
   \<and> \<not> isSimulating (cancelSimulation s)
   \<and> speech (cancelSimulation s) = speech s @ [CancelSpeech]
   \<and> userBearing (cancelSimulation s) = None
   \<and> totalDistanceTraveledRef (cancelSimulation s) = totalDistanceTraveledRef s
   \<and> currentInstructionIdxRef (cancelSimulation s) = currentInstructionIdxRef s
   \<and> currentInstructionIndex (cancelSimulation s) = currentInstructionIndex s"
    by (simp add: cancelSimulation_def cancelSpeech_def)
  have l: "\<exists>r. setLiveLocationEnabled fuel True supported watchId s = Some r
           \<and> liveLocationEnabled r
           \<and> simulationIntervalRef r = None \<and> \<not> isSimulating r \<and> userBearing r = None
           \<and> speech r = speech s @ (if userPosition s = actualUserLatLng s
                                     then [CancelSpeech] else [CancelSpeech, CancelSpeech])
           \<and> userPosition r = actualUserLatLng s
           \<and> totalDistanceTraveledRef r = totalDistanceTraveledRef s
           \<and> currentInstructionIdxRef r = currentInstructionIdxRef s
           \<and> currentInstructionIndex r = currentInstructionIndex s"
    if "\<not> liveLocationEnabled s" "3 \<le> fuel"
  proof -
    from three_le [OF that(2)] obtain k where "fuel = Suc (Suc (Suc k))" ..
    with enable_live_location [OF that(1), of k supported watchId] show ?thesis by simp
  qed
  note h = handleEntryGateSelect_frame [of gateId s]
  have same: "selectEntryGate gateId s = handleEntryGateSelect gateId s
        \<and> totalDistanceTraveledRef (selectEntryGate gateId s) = totalDistanceTraveledRef s
        \<and> currentInstructionIdxRef (selectEntryGate gateId s) = currentInstructionIdxRef s
        \<and> currentInstructionIndex (selectEntryGate gateId s) = 0"
    if "selectedEntryGateId s = Some gateId"
    by (simp add: selectEntryGate_same [OF that] h)
  have rc: "\<exists>r. recalculateRoute fuel supported watchId s = Some r
           \<and> simulationIntervalRef r = None \<and> \<not> isSimulating r
           \<and> pnrDetails r = pnrDetails s
           \<and> selectedEntryGateId r = selectedEntryGateId s
           \<and> totalDistanceTraveledRef r = totalDistanceTraveledRef s
           \<and> currentInstructionIdxRef r = currentInstructionIdxRef s
           \<and> currentInstructionIndex r = 0"
    if "selectedEntryGateId s = Some gateId" "gateId \<noteq> []" "pnrDetails s \<noteq> None" "3 \<le> fuel"
  proof -
    from three_le [OF that(4)] obtain k where "fuel = Suc (Suc (Suc k))" ..
    with recalculateRoute_selected [OF that(1-3), of k supported watchId] show ?thesis by auto
  qed
  have e: "totalDistanceTraveledRef (selectionEffect s) = 0
   \<and> currentInstructionIdxRef (selectionEffect s) = 0
   \<and> currentInstructionIndex (selectionEffect s) = 0"
    by (simp add: selectionEffect_def)
  have g: "selectedEntryGateId s \<noteq> Some gateId \<longrightarrow>
        totalDistanceTraveledRef (selectEntryGate gateId s) = 0
        \<and> currentInstructionIdxRef (selectEntryGate gateId s) = 0
        \<and> currentInstructionIndex (selectEntryGate gateId s) = 0"
    using h(9) by (auto simp: selectEntryGate_def Let_def selectionEffect_def)
  have p: "pnrDetails (lookupPNR p s) \<noteq> pnrDetails s \<longrightarrow>
        totalDistanceTraveledRef (lookupPNR p s) = 0
        \<and> currentInstructionIdxRef (lookupPNR p s) = 0
        \<and> currentInstructionIndex (lookupPNR p s) = 0"
    by (auto simp: lookupPNR_def Let_def selectionEffect_def)
  have r: "userPosition s \<noteq> None \<and> totalDistanceTraveledRef s \<noteq> 0 \<longrightarrow>
        totalDistanceTraveledRef (startSimulation s) = totalDistanceTraveledRef s
        \<and> currentInstructionIdxRef (startSimulation s) = currentInstructionIdxRef s"
    by (simp add: startSimulation_def Let_def speak_def)
  from c l h(1-7) same rc e g p r show ?thesis by blast
qed

section \<open>The shared table across routes\<close>





section \<open>The walk from gate A to platform 1\<close>

lemma walk_refs:
  "pushInstructions mockStationLayout_points route_gate_a_platform_1 [0] = [0, 9, 10, 11, 6, 12, 7, 13, 14, 2]"
  by (simp add: tbl route_gate_a_platform_1_def mkInstruction_def getPointById_def)

lemma gate_a_ref: "getPointById mockStationLayout_points ''gate-a'' = Some 0"
  by (simp add: tbl getPointById_def)

lemma walk_generate:
  "generatePathPointsForMap mockStationLayout_points route_gate_a_platform_1 (Some ''gate-a'')
     = (assignCumulativeDistances mockStationLayout_points [0, 9, 10, 11, 6, 12, 7, 13, 14, 2] 0 0,
        map (annotateInstruction
               (assignCumulativeDistances mockStationLayout_points [0, 9, 10, 11, 6, 12, 7, 13, 14, 2] 0 0)
               [0, 9, 10, 11, 6, 12, 7, 13, 14, 2]) route_gate_a_platform_1,
        [0, 9, 10, 11, 6, 12, 7, 13, 14, 2])"
  by (simp add: generatePathPointsForMap_def gate_a_ref walk_refs Let_def)

lemma pnr_lookup: "getPNRDetails ''1234567890'' = Some (mockPNRData ! 0)"
  by (simp add: getPNRDetails_def mockPNRData_def)

lemma walk_key: "mockStationLayout_paths ''gate-a-platform-1'' = Some route_gate_a_platform_1"
  by (simp add: mockStationLayout_paths_def)

lemma sqrt_900: "sqrt 900 = 30"
  using real_sqrt_abs [of 30] by simp

lemma sqrt_625: "sqrt 625 = 25"
  using real_sqrt_abs [of 25] by simp

lemma walk_distances:
  "map (\<lambda>j. getDistanceBetweenPoints
               (mockStationLayout_points ! ([0, 9, 10, 11, 6, 12, 7, 13, 14, 2] ! j))
               (mockStationLayout_points ! ([0, 9, 10, 11, 6, 12, 7, 13, 14, 2] ! Suc j))) [0..<9]
     = [20, 30, sqrt 2825, sqrt 325, sqrt 1250, sqrt 1250, sqrt 1700, sqrt 22625, 25]"
  by (simp add: upt_rec [of _ "numeral _"] upt_rec [of 0] tbl getDistanceBetweenPoints_def sqrt_400 sqrt_900 sqrt_625)


lemma walk_step:
  assumes iv: "simulationIntervalRef s = Some iv"
    and tot: "totalPathLength (deref (layout_points s) (iv_pathPointsForMap iv)) = tot"
    and targets: "map cumulativeDistanceToTarget
                    (instructionsOf (layout_paths s) (iv_pathInstructions iv))
                  = [Some t1, Some t2, Some t3, Some tot]"
    and run: "isSimulating s" "totalDistanceTraveledRef s = x"
      "currentInstructionIdxRef s = walkIndex t1 t2 t3 x"
      "currentInstructionIndex s = walkIndex t1 t2 t3 x"
    and gaps: "t1 + 1 / 10 < t2" "t2 + 1 / 10 < t3" "t3 + 1 / 10 < tot"
    and x: "0 \<le> x" "x + 1 / 10 < tot"
  shows "simulationIntervalRef (tick s) = Some iv
         \<and> layout_points (tick s) = layout_points s
         \<and> layout_paths (tick s) = layout_paths s
         \<and> isSimulating (tick s)
         \<and> totalDistanceTraveledRef (tick s) = x + 1 / 10
         \<and> currentInstructionIdxRef (tick s) = walkIndex t1 t2 t3 (x + 1 / 10)
         \<and> currentInstructionIndex (tick s) = walkIndex t1 t2 t3 (x + 1 / 10)"
proof -
  let ?insts = "instructionsOf (layout_paths s) (iv_pathInstructions iv)"
  have lt: "totalDistanceTraveledRef s + distanceToAdvance
              < totalPathLength (deref (layout_points s) (iv_pathPointsForMap iv))"
    using x run(2) tot by (simp add: distanceToAdvance_value)
  have len: "length ?insts = 4"
    using arg_cong [OF targets, of length] by simp
  have tg: "cumulativeDistanceToTarget (?insts ! k) = [Some t1, Some t2, Some t3, Some tot] ! k"
    if "k < 4" for k
    using that len nth_map [of k ?insts cumulativeDistanceToTarget] targets by simp
  have idx: "walkIndex t1 t2 t3 x < 4"
    by (simp add: walkIndex_def)
  have cur: "cumulativeDistanceToTarget (?insts ! walkIndex t1 t2 t3 x)
               = Some (if x < t1 then t1 else if x < t2 then t2 else if x < t3 then t3 else tot)"
    using tg [OF idx] by (simp add: walkIndex_def)
  have adv: "(if x < t1 then t1 else if x < t2 then t2 else if x < t3 then t3 else tot) \<le> x + 1 / 10
             \<Longrightarrow> walkIndex t1 t2 t3 (x + 1 / 10) = walkIndex t1 t2 t3 x + 1"
    using gaps x by (auto simp: walkIndex_def split: if_splits)
  have stay: "\<not> (if x < t1 then t1 else if x < t2 then t2 else if x < t3 then t3 else tot) \<le> x + 1 / 10
             \<Longrightarrow> walkIndex t1 t2 t3 (x + 1 / 10) = walkIndex t1 t2 t3 x"
    using gaps x by (auto simp: walkIndex_def split: if_splits)
  show ?thesis
    unfolding tick_running [OF iv lt]
    using iv run len idx cur adv stay
    by (simp add: advanceInstruction_frame advanceInstruction_idx advanceInstruction_index
        moveUser_frame distanceToAdvance_value)
qed

lemma walk_run:
  assumes iv: "simulationIntervalRef s0 = Some iv"
    and tot: "totalPathLength (deref (layout_points s0) (iv_pathPointsForMap iv)) = tot"
    and targets: "map cumulativeDistanceToTarget
                    (instructionsOf (layout_paths s0) (iv_pathInstructions iv))
                  = [Some t1, Some t2, Some t3, Some tot]"
    and start: "isSimulating s0" "totalDistanceTraveledRef s0 = 0"
      "currentInstructionIdxRef s0 = 0" "currentInstructionIndex s0 = 0"
    and gaps: "0 < t1" "t1 + 1 / 10 < t2" "t2 + 1 / 10 < t3" "t3 + 1 / 10 < tot"
    and n: "real n / 10 < tot"
  shows "simulationIntervalRef ((tick ^^ n) s0) = Some iv
         \<and> layout_points ((tick ^^ n) s0) = layout_points s0
         \<and> layout_paths ((tick ^^ n) s0) = layout_paths s0
         \<and> isSimulating ((tick ^^ n) s0)
         \<and> totalDistanceTraveledRef ((tick ^^ n) s0) = real n / 10
         \<and> currentInstructionIdxRef ((tick ^^ n) s0) = walkIndex t1 t2 t3 (real n / 10)
         \<and> currentInstructionIndex ((tick ^^ n) s0) = walkIndex t1 t2 t3 (real n / 10)"
  using n
proof (induction n)
  case 0
  show ?case using iv start gaps(1) by (simp add: walkIndex_def)
next
  case (Suc n)
  let ?s = "(tick ^^ n) s0"
  from Suc.prems have "real n / 10 < tot" by simp
  from Suc.IH [OF this] have
    ih: "simulationIntervalRef ?s = Some iv" "layout_points ?s = layout_points s0"
      "layout_paths ?s = layout_paths s0" "isSimulating ?s"
      "totalDistanceTraveledRef ?s = real n / 10"
      "currentInstructionIdxRef ?s = walkIndex t1 t2 t3 (real n / 10)"
      "currentInstructionIndex ?s = walkIndex t1 t2 t3 (real n / 10)"
    by simp_all
  have x: "real n / 10 + 1 / 10 = real (Suc n) / 10" by simp
  have "0 \<le> real n / 10" "real n / 10 + 1 / 10 < tot"
    using Suc.prems by simp_all
  from walk_step [OF ih(1) tot [folded ih(2)] targets [folded ih(3)] ih(4-7) gaps(2-4) this]
  show ?case unfolding x using ih(2,3) by simp
qed

lemma walk_end:
  assumes iv: "simulationIntervalRef s0 = Some iv"
    and tot: "totalPathLength (deref (layout_points s0) (iv_pathPointsForMap iv)) = tot"
    and targets: "map cumulativeDistanceToTarget
                    (instructionsOf (layout_paths s0) (iv_pathInstructions iv))
                  = [Some t1, Some t2, Some t3, Some tot]"
    and start: "isSimulating s0" "totalDistanceTraveledRef s0 = 0"
      "currentInstructionIdxRef s0 = 0" "currentInstructionIndex s0 = 0"
    and gaps: "0 < t1" "t1 + 1 / 10 < t2" "t2 + 1 / 10 < t3" "t3 + 1 / 10 < tot"
    and n: "tot \<le> real n / 10"
  shows "simulationIntervalRef ((tick ^^ n) s0) = None
         \<and> \<not> isSimulating ((tick ^^ n) s0)
         \<and> totalDistanceTraveledRef ((tick ^^ n) s0) = tot
         \<and> currentInstructionIdxRef ((tick ^^ n) s0) = 3
         \<and> currentInstructionIndex ((tick ^^ n) s0) = 3"
  using n
proof (induction n)
  case 0
  with gaps show ?case by simp
next
  case (Suc n)
  let ?s = "(tick ^^ n) s0"
  show ?case
  proof (cases "tot \<le> real n / 10")
    case True
    from Suc.IH [OF True] show ?thesis by (simp add: tick_stopped)
  next
    case False
    then have lt: "real n / 10 < tot" by simp
    from walk_run [OF iv tot targets start gaps lt] have
      ih: "simulationIntervalRef ?s = Some iv" "layout_points ?s = layout_points s0"
        "totalDistanceTraveledRef ?s = real n / 10"
        "currentInstructionIdxRef ?s = walkIndex t1 t2 t3 (real n / 10)"
        "currentInstructionIndex ?s = walkIndex t1 t2 t3 (real n / 10)"
      by simp_all
    have ge: "totalDistanceTraveledRef ?s + distanceToAdvance
                \<ge> totalPathLength (deref (layout_points ?s) (iv_pathPointsForMap iv))"
      using Suc.prems ih(2,3) tot by (simp add: distanceToAdvance_value)
    have "t3 \<le> real n / 10" using Suc.prems gaps by simp
    then have three: "walkIndex t1 t2 t3 (real n / 10) = 3"
      using gaps by (simp add: walkIndex_def)
    show ?thesis
      using ih three tot by (simp add: tick_complete [OF ih(1) ge])
  qed
qed


lemma pathLengthUpTo_take:
  assumes "k \<le> n"
  shows "pathLengthUpTo store points k
           = sum_list (take k (map (\<lambda>j. getDistanceBetweenPoints (store ! (points ! j))
                                                              (store ! (points ! Suc j))) [0..<n]))"
proof -
  have "take k [0..<n] = [0..<k]" using assms by (simp add: take_upt)
  then show ?thesis
    by (simp add: pathLengthUpTo_def take_map interv_sum_list_conv_sum_set_nat atLeast0LessThan)
qed

lemma walk_cumulative:
  assumes "k \<le> 9"
  shows "cumulativeDistance
           (assignCumulativeDistances mockStationLayout_points [0, 9, 10, 11, 6, 12, 7, 13, 14, 2] 0 0
              ! ([0, 9, 10, 11, 6, 12, 7, 13, 14, 2] ! k))
         = Some (sum_list (take k [20, 30, sqrt 2825, sqrt 325, sqrt 1250, sqrt 1250, sqrt 1700,
                                   sqrt 22625, 25]))"
proof -
  have "distinct [0, 9, 10, 11, 6, 12, 7, 13, 14, 2::nat]" by simp
  moreover have "k < length [0, 9, 10, 11, 6, 12, 7, 13, 14, 2::nat]" using assms by simp
  ultimately show ?thesis
    using generate_cumulative [OF walk_generate]
    by (simp only: pathLengthUpTo_take [OF assms] walk_distances)
qed

lemma walk_cumulative_values:
  "map cumulativeDistance
     (deref (assignCumulativeDistances mockStationLayout_points [0, 9, 10, 11, 6, 12, 7, 13, 14, 2] 0 0)
        [0, 9, 10, 11, 6, 12, 7, 13, 14, 2])
   = [Some 0, Some 20, Some 50, Some (50 + sqrt 2825), Some walk_t2,
      Some (walk_t2 + sqrt 1250), Some walk_t3, Some (walk_t3 + sqrt 1700),
      Some (walk_t3 + sqrt 1700 + sqrt 22625), Some walk_total]"
  using walk_cumulative [of 0] walk_cumulative [of 1] walk_cumulative [of 2] walk_cumulative [of 3]
    walk_cumulative [of 4] walk_cumulative [of 5] walk_cumulative [of 6] walk_cumulative [of 7]
    walk_cumulative [of 8] walk_cumulative [of 9]
  by (simp add: deref_def walk_t2_def walk_t3_def walk_total_def)


lemma sqrt_bounds:
  "53150 / 1000 < sqrt 2825" "sqrt 2825 < 53151 / 1000"
  "18027 / 1000 < sqrt 325" "sqrt 325 < 18028 / 1000"
  "35355 / 1000 < sqrt 1250" "sqrt 1250 < 35356 / 1000"
  "41231 / 1000 < sqrt 1700" "sqrt 1700 < 41232 / 1000"
  "150416 / 1000 < sqrt 22625" "sqrt 22625 < 150417 / 1000"
  by (rule real_less_rsqrt real_less_lsqrt; simp add: power2_eq_square)+

lemma walk_bounds:
  "0 < walk_t1" "walk_t1 + 1 / 10 < walk_t2" "walk_t2 + 1 / 10 < walk_t3"
  "walk_t3 + 1 / 10 < walk_total"
  "121177 / 1000 < walk_t2" "walk_t2 < 121179 / 1000"
  "191887 / 1000 < walk_t3" "walk_t3 < 191891 / 1000"
  "408534 / 1000 < walk_total" "walk_total < 408540 / 1000"
  using sqrt_bounds by (simp_all add: walk_t1_def walk_t2_def walk_t3_def walk_total_def)

lemma acd_latLng:
  "latLng (assignCumulativeDistances store points i cur ! r) = latLng (store ! r)"
  using acd_same_point [where store=store and points=points and i=i and cur=cur and r=r and c=None]
  by (metis StationPoint.select_convs(6) StationPoint.surjective StationPoint.update_convs(7))

lemma walk_ids:
  "map pt_id
     (deref (assignCumulativeDistances mockStationLayout_points [0, 9, 10, 11, 6, 12, 7, 13, 14, 2] 0 0)
        [0, 9, 10, 11, 6, 12, 7, 13, 14, 2])
   = [''gate-a'', ''node-ga-1'', ''node-ga-2'', ''node-ga-wh-1'', ''waiting-hall'',
      ''node-wh-e1-1'', ''escalator-1'', ''node-e1-p1-1'', ''node-e1-p1-2'', ''platform-1'']"
  by (simp add: deref_ids) (simp add: deref_def tbl)

lemma walk_targets:
  "map cumulativeDistanceToTarget
     (map (annotateInstruction
             (assignCumulativeDistances mockStationLayout_points [0, 9, 10, 11, 6, 12, 7, 13, 14, 2] 0 0)
             [0, 9, 10, 11, 6, 12, 7, 13, 14, 2]) route_gate_a_platform_1)
   = [Some walk_t1, Some walk_t2, Some walk_t3, Some walk_total]"
  using walk_cumulative_values walk_ids
  by (simp add: route_gate_a_platform_1_def mkInstruction_def annotateInstruction_def deref_def
      walk_t1_def)


lemma gate_a_latLng: "latLng (mockStationLayout_points ! 0) = Some (getLatLngFromOffset 50 250)"
  by (simp add: tbl)

lemma walk_selected_state:
  "walk_selected =
     \<lparr>layout_points =
        assignCumulativeDistances mockStationLayout_points [0, 9, 10, 11, 6, 12, 7, 13, 14, 2] 0 0,
      layout_paths =
        mockStationLayout_paths
          (''gate-a-platform-1'' \<mapsto>
             map (annotateInstruction
                    (assignCumulativeDistances mockStationLayout_points
                       [0, 9, 10, 11, 6, 12, 7, 13, 14, 2] 0 0)
                    [0, 9, 10, 11, 6, 12, 7, 13, 14, 2])
               route_gate_a_platform_1),
      pnr = ''1234567890'',
      pnrDetails =
        Some \<lparr>pnr_number = ''1234567890'', trainNumber = ''12001'', platformNumber = ''1'',
               coachDetails = ''S1, Seat 45'', destinationPlatformId = ''platform-1''\<rparr>,
      selectedEntryGateId = Some ''gate-a'',
      pathInstructions = Some ''gate-a-platform-1'',
      pathPointsForMap = [0, 9, 10, 11, 6, 12, 7, 13, 14, 2],
      errorMessage = None, infoMessage = None,
      userPosition = Some (getLatLngFromOffset 50 250),
      userBearing = None, currentInstructionIndex = 0,
      isSimulating = False, language = EnUS, liveLocationEnabled = False,
      actualUserLatLng = None, geolocationError = None, watchIdRef = None,
      simulationIntervalRef = None, totalDistanceTraveledRef = 0,
      currentInstructionIdxRef = 0,
      speech = [CancelSpeech, CancelSpeech]\<rparr>"
  by (simp add: walk_selected_def selectEntryGate_def lookupPNR_def handlePNRLookup_def
      handleEntryGateSelect_def initialState_def pnr_lookup Let_def cancelSimulation_def
      cancelSpeech_def clearRoute_def selectionEffect_def walk_key walk_generate mockPNRData_def
      firstLatLng_def acd_latLng gate_a_latLng)

lemma walk_started_state:
  "walk_started =
     walk_selected
       \<lparr>isSimulating := True,
        speech := [CancelSpeech, CancelSpeech, Speak (InstructionText ''inst1'') EnUS],
        simulationIntervalRef :=
          Some \<lparr>iv_pathPointsForMap = [0, 9, 10, 11, 6, 12, 7, 13, 14, 2],
                 iv_pathInstructions = Some ''gate-a-platform-1'',
                 iv_pnrDetails =
                   Some \<lparr>pnr_number = ''1234567890'', trainNumber = ''12001'',
                          platformNumber = ''1'', coachDetails = ''S1, Seat 45'',
                          destinationPlatformId = ''platform-1''\<rparr>,
                 iv_language = EnUS\<rparr>\<rparr>"
  by (simp add: walk_started_def startSimulation_def walk_selected_state Let_def firstLatLng_def
      acd_latLng gate_a_latLng instructionsOf_def speak_def route_gate_a_platform_1_def
      mkInstruction_def annotateInstruction_def split: option.splits)


lemma walk_total_length:
  "totalPathLength
     (deref (assignCumulativeDistances mockStationLayout_points [0, 9, 10, 11, 6, 12, 7, 13, 14, 2] 0 0)
        [0, 9, 10, 11, 6, 12, 7, 13, 14, 2]) = walk_total"
proof -
  let ?path = "deref (assignCumulativeDistances mockStationLayout_points
                        [0, 9, 10, 11, 6, 12, 7, 13, 14, 2] 0 0)
                 [0, 9, 10, 11, 6, 12, 7, 13, 14, 2]"
  have ne: "?path \<noteq> []" by (simp add: deref_def)
  then have "cumulativeDistance (last ?path) = last (map cumulativeDistance ?path)"
    by (simp add: last_map)
  also have "\<dots> = Some walk_total" by (simp only: walk_cumulative_values) simp
  finally show ?thesis using ne by (simp add: totalPathLength_def orZero_def)
qed

lemma walk_started_facts:
  "simulationIntervalRef walk_started =
     Some \<lparr>iv_pathPointsForMap = [0, 9, 10, 11, 6, 12, 7, 13, 14, 2],
            iv_pathInstructions = Some ''gate-a-platform-1'',
            iv_pnrDetails =
              Some \<lparr>pnr_number = ''1234567890'', trainNumber = ''12001'',
                     platformNumber = ''1'', coachDetails = ''S1, Seat 45'',
                     destinationPlatformId = ''platform-1''\<rparr>,
            iv_language = EnUS\<rparr>"
  "layout_points walk_started =
     assignCumulativeDistances mockStationLayout_points [0, 9, 10, 11, 6, 12, 7, 13, 14, 2] 0 0"
  "instructionsOf (layout_paths walk_started) (Some ''gate-a-platform-1'') =
     map (annotateInstruction
            (assignCumulativeDistances mockStationLayout_points [0, 9, 10, 11, 6, 12, 7, 13, 14, 2] 0 0)
            [0, 9, 10, 11, 6, 12, 7, 13, 14, 2]) route_gate_a_platform_1"
  "isSimulating walk_started"
  "totalDistanceTraveledRef walk_started = 0"
  "currentInstructionIdxRef walk_started = 0"
  "currentInstructionIndex walk_started = 0"
  "speech walk_started = [CancelSpeech, CancelSpeech, Speak (InstructionText ''inst1'') EnUS]"
  "userPosition walk_started = Some (getLatLngFromOffset 50 250)"
  by (simp_all add: walk_started_state walk_selected_state instructionsOf_def)

lemma walk_started_total:
  "totalPathLength
     (deref (layout_points walk_started)
        (iv_pathPointsForMap
           \<lparr>iv_pathPointsForMap = [0, 9, 10, 11, 6, 12, 7, 13, 14, 2],
            iv_pathInstructions = Some ''gate-a-platform-1'',
            iv_pnrDetails =
              Some \<lparr>pnr_number = ''1234567890'', trainNumber = ''12001'',
                     platformNumber = ''1'', coachDetails = ''S1, Seat 45'',
                     destinationPlatformId = ''platform-1''\<rparr>,
            iv_language = EnUS\<rparr>)) = walk_total"
  by (simp add: walk_started_facts(2) walk_total_length)

lemma walk_started_targets:
  "map cumulativeDistanceToTarget
     (instructionsOf (layout_paths walk_started)
        (iv_pathInstructions
           \<lparr>iv_pathPointsForMap = [0, 9, 10, 11, 6, 12, 7, 13, 14, 2],
            iv_pathInstructions = Some ''gate-a-platform-1'',
            iv_pnrDetails =
              Some \<lparr>pnr_number = ''1234567890'', trainNumber = ''12001'',
                     platformNumber = ''1'', coachDetails = ''S1, Seat 45'',
                     destinationPlatformId = ''platform-1''\<rparr>,
            iv_language = EnUS\<rparr>))
   = [Some walk_t1, Some walk_t2, Some walk_t3, Some walk_total]"
  by (simp add: walk_started_facts(3) walk_targets del: map_map)

lemma walk_started_run:
  assumes "real n / 10 < walk_total"
  shows "simulationIntervalRef ((tick ^^ n) walk_started) = simulationIntervalRef walk_started
         \<and> layout_points ((tick ^^ n) walk_started) = layout_points walk_started
         \<and> layout_paths ((tick ^^ n) walk_started) = layout_paths walk_started
         \<and> isSimulating ((tick ^^ n) walk_started)
         \<and> totalDistanceTraveledRef ((tick ^^ n) walk_started) = real n / 10
         \<and> currentInstructionIdxRef ((tick ^^ n) walk_started)
             = walkIndex walk_t1 walk_t2 walk_t3 (real n / 10)
         \<and> currentInstructionIndex ((tick ^^ n) walk_started)
             = walkIndex walk_t1 walk_t2 walk_t3 (real n / 10)"
  using walk_run [OF walk_started_facts(1) walk_started_total walk_started_targets
      walk_started_facts(4-7) walk_bounds(1-4) assms]
  by (simp only: walk_started_facts(1))

lemma walk_started_end:
  assumes "walk_total \<le> real n / 10"
  shows "simulationIntervalRef ((tick ^^ n) walk_started) = None
         \<and> \<not> isSimulating ((tick ^^ n) walk_started)
         \<and> totalDistanceTraveledRef ((tick ^^ n) walk_started) = walk_total
         \<and> currentInstructionIdxRef ((tick ^^ n) walk_started) = 3
         \<and> currentInstructionIndex ((tick ^^ n) walk_started) = 3"
  by (rule walk_end [OF walk_started_facts(1) walk_started_total walk_started_targets
      walk_started_facts(4-7) walk_bounds(1-4) assms])

text \<open>
  C5, amended. The path from gate A to platform 1 consists of the ten points listed.
  The simulator starts at instruction 0 and speaks it. While the accumulator, one tenth
  of a metre per tick, is below the length of the path, the simulation runs and the
  instruction index is the number of the targets 50, \<open>walk_t2\<close> and \<open>walk_t3\<close> reached:
  index 3 from \<open>walk_t3\<close> on, between 191.8 m and 191.9 m. From the tick on which the
  accumulator reaches the length of the path, between 408.5 m and 408.6 m, the simulation
  is stopped with the accumulator at that length and the index at 3.
\<close>

theorem walk_gate_a_platform_1:
  "map pt_id (deref (layout_points walk_selected) (pathPointsForMap walk_selected))
     = [''gate-a'', ''node-ga-1'', ''node-ga-2'', ''node-ga-wh-1'', ''waiting-hall'',
        ''node-wh-e1-1'', ''escalator-1'', ''node-e1-p1-1'', ''node-e1-p1-2'', ''platform-1'']
   \<and> isSimulating walk_started
   \<and> currentInstructionIdxRef walk_started = 0
   \<and> currentInstructionIndex walk_started = 0
   \<and> last (speech walk_started) = Speak (InstructionText ''inst1'') EnUS
   \<and> (\<forall>n. real n / 10 < walk_total \<longrightarrow>
         isSimulating ((tick ^^ n) walk_started)
         \<and> totalDistanceTraveledRef ((tick ^^ n) walk_started) = real n / 10
         \<and> currentInstructionIdxRef ((tick ^^ n) walk_started)
             = walkIndex walk_t1 walk_t2 walk_t3 (real n / 10)
         \<and> currentInstructionIndex ((tick ^^ n) walk_started)
             = walkIndex walk_t1 walk_t2 walk_t3 (real n / 10))
   \<and> (\<forall>n. walk_total \<le> real n / 10 \<longrightarrow>
         \<not> isSimulating ((tick ^^ n) walk_started)
         \<and> simulationIntervalRef ((tick ^^ n) walk_started) = None
         \<and> totalDistanceTraveledRef ((tick ^^ n) walk_started) = walk_total
         \<and> currentInstructionIdxRef ((tick ^^ n) walk_started) = 3)
   \<and> 1918 / 10 < walk_t3 \<and> walk_t3 < 1919 / 10
   \<and> 4085 / 10 < walk_total \<and> walk_total < 4086 / 10"
proof -
  have ids: "map pt_id (deref (layout_points walk_selected) (pathPointsForMap walk_selected))
     = [''gate-a'', ''node-ga-1'', ''node-ga-2'', ''node-ga-wh-1'', ''waiting-hall'',
        ''node-wh-e1-1'', ''escalator-1'', ''node-e1-p1-1'', ''node-e1-p1-2'', ''platform-1'']"
    using walk_ids by (simp add: walk_selected_state)
  have start: "isSimulating walk_started \<and> currentInstructionIdxRef walk_started = 0
     \<and> currentInstructionIndex walk_started = 0
     \<and> last (speech walk_started) = Speak (InstructionText ''inst1'') EnUS"
    by (simp add: walk_started_facts)
  have bounds: "1918 / 10 < walk_t3 \<and> walk_t3 < 1919 / 10
     \<and> 4085 / 10 < walk_total \<and> walk_total < 4086 / 10"
    using walk_bounds by simp
  from ids start bounds walk_started_run walk_started_end show ?thesis by blast
qed

text \<open>
  The walk at ticks 1918, 1919, 4085 and 4086.
\<close>

theorem walk_gate_a_platform_1_witness:
  "isSimulating ((tick ^^ 1918) walk_started)
   \<and> currentInstructionIdxRef ((tick ^^ 1918) walk_started) = 2
   \<and> isSimulating ((tick ^^ 1919) walk_started)
   \<and> currentInstructionIdxRef ((tick ^^ 1919) walk_started) = 3
   \<and> isSimulating ((tick ^^ 4085) walk_started)
   \<and> \<not> isSimulating ((tick ^^ 4086) walk_started)
   \<and> totalDistanceTraveledRef ((tick ^^ 4086) walk_started) = walk_total"
proof -
  note t = walk_gate_a_platform_1
  have b: "1918 / 10 < walk_t3" "walk_t3 < 1919 / 10" "4085 / 10 < walk_total"
    "walk_total < 4086 / 10"
    using t by simp_all
  have t2: "walk_t2 < 1918 / 10"
    using walk_bounds by simp
  have r: "real n / 10 < walk_total \<Longrightarrow>
         isSimulating ((tick ^^ n) walk_started)
         \<and> currentInstructionIdxRef ((tick ^^ n) walk_started)
             = walkIndex walk_t1 walk_t2 walk_t3 (real n / 10)" for n
    using t by blast
  have e: "walk_total \<le> real n / 10 \<Longrightarrow>
         \<not> isSimulating ((tick ^^ n) walk_started)
         \<and> totalDistanceTraveledRef ((tick ^^ n) walk_started) = walk_total" for n
    using t by blast
  show ?thesis
    using r [of 1918] r [of 1919] r [of 4085] e [of 4086] b t2
    by (simp add: walkIndex_def walk_t1_def)
qed

text \<open>
  At 140 m, and one tick later, the walk is still running at instruction index 2.
\<close>

theorem walk_140_counterexample:
  "totalDistanceTraveledRef ((tick ^^ 1400) walk_started) = 140
   \<and> isSimulating ((tick ^^ 1400) walk_started)
   \<and> currentInstructionIdxRef ((tick ^^ 1400) walk_started) = 2
   \<and> totalDistanceTraveledRef ((tick ^^ 1401) walk_started) = 1401 / 10
   \<and> isSimulating ((tick ^^ 1401) walk_started)
   \<and> currentInstructionIdxRef ((tick ^^ 1401) walk_started) = 2"
  using walk_started_run [of 1400] walk_started_run [of 1401] walk_bounds
  by (simp add: walkIndex_def walk_t1_def)

section \<open>Instances on the walk from gate A to platform 1\<close>

text \<open>
  The path from gate A to platform 1 visits no point twice.
\<close>

theorem materializedPath_cumulativeDistance_witness:
  "distinct (map pt_id
      (materializedPath mockStationLayout_points route_gate_a_platform_1 (Some ''gate-a'')))
   \<and> (\<exists>cum. map cumulativeDistance
                (materializedPath mockStationLayout_points route_gate_a_platform_1 (Some ''gate-a''))
              = map Some cum
           \<and> (cum \<noteq> [] \<longrightarrow> cum ! 0 = 0)
           \<and> (\<forall>i. 0 < i \<and> i < length cum \<longrightarrow>
                  cum ! i = cum ! (i - 1)
                    + getDistanceBetweenPoints
                        (materializedPath mockStationLayout_points route_gate_a_platform_1
                           (Some ''gate-a'') ! (i - 1))
                        (materializedPath mockStationLayout_points route_gate_a_platform_1
                           (Some ''gate-a'') ! i))
           \<and> sorted cum)"
proof -
  have d: "distinct (map pt_id
      (materializedPath mockStationLayout_points route_gate_a_platform_1 (Some ''gate-a'')))"
    by (simp add: materializedPath_def walk_generate walk_ids)
  from d materializedPath_cumulativeDistance [OF refl d] show ?thesis by blast
qed

text \<open>
  The route to platform 1 materialized without a gate id and with the empty gate id. With
  the gate id \<open>gate-x\<close>, which the table does not have: a route that names the path node
  node-zz and the target hall-zz, which the table does not have either, gives the path of
  the four other points; a route of which the table has no id gives the empty path.
\<close>

lemma absent_ids:
  "\<forall>p\<in>set mockStationLayout_points. pt_id p \<noteq> ''gate-x''"
  "\<forall>p\<in>set mockStationLayout_points. pt_id p \<noteq> ''node-zz''"
  "\<forall>p\<in>set mockStationLayout_points. pt_id p \<noteq> ''hall-zz''"
  by (simp_all add: tbl)

lemma present_ids:
  "\<exists>p\<in>set mockStationLayout_points. pt_id p = ''node-ga-1''"
  "\<exists>p\<in>set mockStationLayout_points. pt_id p = ''node-ga-2''"
  "\<exists>p\<in>set mockStationLayout_points. pt_id p = ''node-ga-wh-1''"
  "\<exists>p\<in>set mockStationLayout_points. pt_id p = ''escalator-1''"
  by (simp_all add: tbl)

theorem generatePathPointsForMap_unresolved_gate_witness:
  "generatePathPointsForMap mockStationLayout_points route_gate_a_platform_1 None
     = (mockStationLayout_points, route_gate_a_platform_1, [])
   \<and> generatePathPointsForMap mockStationLayout_points route_gate_a_platform_1 (Some [])
     = (mockStationLayout_points, route_gate_a_platform_1, [])
   \<and> routePointIds partly_unresolved_route
     = [''node-ga-1'', ''node-zz'', ''node-ga-2'', ''node-ga-wh-1'', ''hall-zz'', ''escalator-1'']
   \<and> snd (snd (generatePathPointsForMap mockStationLayout_points partly_unresolved_route
                  (Some ''gate-x'')))
     = [9, 10, 11, 7]
   \<and> map pt_id (materializedPath mockStationLayout_points partly_unresolved_route (Some ''gate-x''))
     = [''node-ga-1'', ''node-ga-2'', ''node-ga-wh-1'', ''escalator-1'']
   \<and> routePointIds unresolved_route = [''node-zz'', ''hall-zz'']
   \<and> materializedPath mockStationLayout_points unresolved_route (Some ''gate-x'') = []"
proof -
  have i: "routePointIds partly_unresolved_route
     = [''node-ga-1'', ''node-zz'', ''node-ga-2'', ''node-ga-wh-1'', ''hall-zz'', ''escalator-1'']"
    "routePointIds unresolved_route = [''node-zz'', ''hall-zz'']"
    by (simp_all add: routePointIds_def partly_unresolved_route_def unresolved_route_def
        mkInstruction_def)
  have r: "List.map_filter (getPointById mockStationLayout_points)
             [''node-ga-1'', ''node-zz'', ''node-ga-2'', ''node-ga-wh-1'', ''hall-zz'', ''escalator-1'']
           = [9, 10, 11, 7]"
    by (simp add: map_filter_simps getPointById_def tbl)
  have f: "filter (\<lambda>i. \<exists>p\<in>set mockStationLayout_points. pt_id p = i)
             [''node-ga-1'', ''node-zz'', ''node-ga-2'', ''node-ga-wh-1'', ''hall-zz'', ''escalator-1'']
           = [''node-ga-1'', ''node-ga-2'', ''node-ga-wh-1'', ''escalator-1'']"
    using absent_ids present_ids by simp
  show ?thesis
    using generatePathPointsForMap_unresolved_gate
            [of None mockStationLayout_points route_gate_a_platform_1]
      generatePathPointsForMap_unresolved_gate
            [of "Some []" mockStationLayout_points route_gate_a_platform_1]
      generatePathPointsForMap_unresolved_gate
            [of "Some ''gate-x''" mockStationLayout_points partly_unresolved_route]
      generatePathPointsForMap_unresolved_gate
            [of "Some ''gate-x''" mockStationLayout_points unresolved_route]
      absent_ids i r f
    by simp
qed

lemma walk_4085:
  "simulationIntervalRef ((tick ^^ 4085) walk_started) = simulationIntervalRef walk_started"
  "layout_points ((tick ^^ 4085) walk_started) = layout_points walk_started"
  "layout_paths ((tick ^^ 4085) walk_started) = layout_paths walk_started"
  "totalDistanceTraveledRef ((tick ^^ 4085) walk_started) = 4085 / 10"
  "currentInstructionIdxRef ((tick ^^ 4085) walk_started) = 3"
  using walk_started_run [of 4085] walk_bounds by (simp_all add: walkIndex_def walk_t1_def)

text \<open>
  Tick 4086 of the walk completes it.
\<close>

theorem tick_reaches_destination_witness:
  "totalDistanceTraveledRef (tick ((tick ^^ 4085) walk_started)) = walk_total
   \<and> speech (tick ((tick ^^ 4085) walk_started))
       = speech ((tick ^^ 4085) walk_started)
         @ [Speak (DestinationMessage (Some ''1'') (Some ''S1, Seat 45'')) EnUS, CancelSpeech]
   \<and> simulationIntervalRef (tick ((tick ^^ 4085) walk_started)) = None
   \<and> \<not> isSimulating (tick ((tick ^^ 4085) walk_started))
   \<and> userPosition (tick ((tick ^^ 4085) walk_started))
       = userPosition ((tick ^^ 4085) walk_started)
   \<and> (tick ^^ 3) (tick ((tick ^^ 4085) walk_started)) = tick ((tick ^^ 4085) walk_started)"
proof -
  have iv: "simulationIntervalRef ((tick ^^ 4085) walk_started) =
     Some \<lparr>iv_pathPointsForMap = [0, 9, 10, 11, 6, 12, 7, 13, 14, 2],
            iv_pathInstructions = Some ''gate-a-platform-1'',
            iv_pnrDetails =
              Some \<lparr>pnr_number = ''1234567890'', trainNumber = ''12001'',
                     platformNumber = ''1'', coachDetails = ''S1, Seat 45'',
                     destinationPlatformId = ''platform-1''\<rparr>,
            iv_language = EnUS\<rparr>"
    by (simp only: walk_4085 walk_started_facts)
  have ge: "totalDistanceTraveledRef ((tick ^^ 4085) walk_started) + distanceToAdvance
             \<ge> totalPathLength (deref (layout_points ((tick ^^ 4085) walk_started))
                                   [0, 9, 10, 11, 6, 12, 7, 13, 14, 2])"
    using walk_bounds
    by (simp add: walk_4085 walk_started_facts(2) walk_total_length distanceToAdvance_value)
  have tot: "totalPathLength (deref (layout_points ((tick ^^ 4085) walk_started))
                                   [0, 9, 10, 11, 6, 12, 7, 13, 14, 2]) = walk_total"
    by (simp add: walk_4085 walk_started_facts(2) walk_total_length)
  show ?thesis
    using tick_reaches_destination [OF iv refl] ge tot
    by (simp add: destinationMessage_def)
qed


lemma walk_target_at:
  "cumulativeDistanceToTarget
     (instructionsOf (layout_paths walk_started) (Some ''gate-a-platform-1'') ! 0) = Some walk_t1"
  "cumulativeDistanceToTarget
     (instructionsOf (layout_paths walk_started) (Some ''gate-a-platform-1'') ! 1) = Some walk_t2"
  "cumulativeDistanceToTarget
     (instructionsOf (layout_paths walk_started) (Some ''gate-a-platform-1'') ! 2) = Some walk_t3"
  "cumulativeDistanceToTarget
     (instructionsOf (layout_paths walk_started) (Some ''gate-a-platform-1'') ! 3) = Some walk_total"
  "length (instructionsOf (layout_paths walk_started) (Some ''gate-a-platform-1'')) = 4"
proof -
  let ?insts = "instructionsOf (layout_paths walk_started) (Some ''gate-a-platform-1'')"
  have m: "map cumulativeDistanceToTarget ?insts
             = [Some walk_t1, Some walk_t2, Some walk_t3, Some walk_total]"
    using walk_started_targets by simp
  from arg_cong [OF m, of length] show len: "length ?insts = 4" by simp
  have "cumulativeDistanceToTarget (?insts ! k)
          = [Some walk_t1, Some walk_t2, Some walk_t3, Some walk_total] ! k" if "k < 4" for k
    using that len nth_map [of k ?insts cumulativeDistanceToTarget] m by simp
  from this [of 0] this [of 1] this [of 2] this [of 3]
  show "cumulativeDistanceToTarget (?insts ! 0) = Some walk_t1"
    "cumulativeDistanceToTarget (?insts ! 1) = Some walk_t2"
    "cumulativeDistanceToTarget (?insts ! 2) = Some walk_t3"
    "cumulativeDistanceToTarget (?insts ! 3) = Some walk_total"
    by simp_all
qed

text \<open>
  On tick 4086 of the walk the target of the current instruction, the last one, is set
  and reached, and the index stays at 3: the callback returns before it looks at the
  instruction.
\<close>

theorem completing_tick_counterexample:
  "simulationIntervalRef ((tick ^^ 4085) walk_started) \<noteq> None
   \<and> currentInstructionIdxRef ((tick ^^ 4085) walk_started) = 3
   \<and> cumulativeDistanceToTarget
        (instructionsOf (layout_paths ((tick ^^ 4085) walk_started)) (Some ''gate-a-platform-1'') ! 3)
       = Some walk_total
   \<and> walk_total \<le> totalDistanceTraveledRef ((tick ^^ 4085) walk_started) + distanceToAdvance
   \<and> totalDistanceTraveledRef (tick ((tick ^^ 4085) walk_started)) = walk_total
   \<and> currentInstructionIdxRef (tick ((tick ^^ 4085) walk_started)) = 3"
proof -
  have iv: "simulationIntervalRef ((tick ^^ 4085) walk_started) =
     Some \<lparr>iv_pathPointsForMap = [0, 9, 10, 11, 6, 12, 7, 13, 14, 2],
            iv_pathInstructions = Some ''gate-a-platform-1'',
            iv_pnrDetails =
              Some \<lparr>pnr_number = ''1234567890'', trainNumber = ''12001'',
                     platformNumber = ''1'', coachDetails = ''S1, Seat 45'',
                     destinationPlatformId = ''platform-1''\<rparr>,
            iv_language = EnUS\<rparr>"
    by (simp only: walk_4085 walk_started_facts)
  have tot: "totalPathLength (deref (layout_points ((tick ^^ 4085) walk_started))
                                   [0, 9, 10, 11, 6, 12, 7, 13, 14, 2]) = walk_total"
    by (simp add: walk_4085 walk_started_facts(2) walk_total_length)
  have ge: "walk_total \<le> totalDistanceTraveledRef ((tick ^^ 4085) walk_started) + distanceToAdvance"
    using walk_bounds by (simp add: walk_4085 distanceToAdvance_value)
  have t: "tick ((tick ^^ 4085) walk_started) =
             ((tick ^^ 4085) walk_started)
               \<lparr>totalDistanceTraveledRef := walk_total,
                speech := speech ((tick ^^ 4085) walk_started)
                  @ [Speak (destinationMessage
                       (Some \<lparr>pnr_number = ''1234567890'', trainNumber = ''12001'',
                               platformNumber = ''1'', coachDetails = ''S1, Seat 45'',
                               destinationPlatformId = ''platform-1''\<rparr>)) EnUS, CancelSpeech],
                simulationIntervalRef := None,
                isSimulating := False,
                userBearing := None\<rparr>"
    using tick_complete [OF iv] ge tot by simp
  show ?thesis
    using ge by (simp add: t iv walk_4085(3,5) walk_target_at)
qed

text \<open>
  Tick 500 of the walk reaches the first target. In a state whose accumulator lies beyond
  two targets while the index is 0, one tick moves the index to 1.
\<close>

theorem tick_advances_one_instruction_witness:
  "currentInstructionIdxRef ((tick ^^ 499) walk_started) = 0
   \<and> currentInstructionIdxRef (tick ((tick ^^ 499) walk_started)) = 1
   \<and> currentInstructionIndex (tick ((tick ^^ 499) walk_started)) = 1
   \<and> walk_t1 \<le> 130 \<and> walk_t2 \<le> 130
   \<and> currentInstructionIdxRef (walk_started\<lparr>totalDistanceTraveledRef := 130\<rparr>) = 0
   \<and> currentInstructionIdxRef (tick (walk_started\<lparr>totalDistanceTraveledRef := 130\<rparr>)) = 1"
proof -
  let ?iv = "\<lparr>iv_pathPointsForMap = [0, 9, 10, 11, 6, 12, 7, 13, 14, 2],
            iv_pathInstructions = Some ''gate-a-platform-1'',
            iv_pnrDetails =
              Some \<lparr>pnr_number = ''1234567890'', trainNumber = ''12001'',
                     platformNumber = ''1'', coachDetails = ''S1, Seat 45'',
                     destinationPlatformId = ''platform-1''\<rparr>,
            iv_language = EnUS\<rparr>"
  let ?s = "(tick ^^ 499) walk_started"
  let ?u = "walk_started\<lparr>totalDistanceTraveledRef := 130\<rparr>"
  have r: "simulationIntervalRef ?s = Some ?iv" "layout_points ?s = layout_points walk_started"
    "layout_paths ?s = layout_paths walk_started" "totalDistanceTraveledRef ?s = 499 / 10"
    "currentInstructionIdxRef ?s = 0"
    using walk_started_run [of 499] walk_bounds
    by (simp_all add: walkIndex_def walk_t1_def walk_started_facts(1))
  have b: "walk_t1 \<le> 130" "walk_t2 \<le> 130" "130 + 1 / 10 < walk_total"
    using walk_bounds by (simp_all add: walk_t1_def)
  have 1: "currentInstructionIdxRef (tick ?s) = currentInstructionIdxRef ?s + 1
           \<and> currentInstructionIndex (tick ?s) = currentInstructionIdxRef ?s + 1"
    using tick_advances_one_instruction [of ?s ?iv walk_t1] walk_bounds
    by (simp add: r walk_total_length walk_started_facts(2) walk_target_at
        distanceToAdvance_value walk_t1_def)
  have 2: "currentInstructionIdxRef (tick ?u) = currentInstructionIdxRef ?u + 1"
    using tick_advances_one_instruction [of ?u ?iv walk_t1] b
    by (simp add: walk_started_facts(1,2,4-7) walk_total_length walk_target_at
        distanceToAdvance_value)
  show ?thesis using 1 2 r b by (simp add: walk_started_facts(6))
qed


lemma walk_first_segment:
  "findSegment
     (deref (assignCumulativeDistances mockStationLayout_points [0, 9, 10, 11, 6, 12, 7, 13, 14, 2] 0 0)
        [0, 9, 10, 11, 6, 12, 7, 13, 14, 2]) (1 / 10)
   = Some (assignCumulativeDistances mockStationLayout_points [0, 9, 10, 11, 6, 12, 7, 13, 14, 2] 0 0 ! 0,
           assignCumulativeDistances mockStationLayout_points [0, 9, 10, 11, 6, 12, 7, 13, 14, 2] 0 0 ! 9,
           Some (1 / 200))"
  using walk_cumulative [of 0] walk_cumulative [of 1]
  by (simp add: deref_def orZero_def js_div_def)

lemma node_ga_1_latLng: "latLng (mockStationLayout_points ! 9) = Some (getLatLngFromOffset 70 250)"
  by (simp add: tbl)

lemma walk_first_tick:
  "tick walk_started =
     walk_started
       \<lparr>totalDistanceTraveledRef := 1 / 10,
        userPosition :=
          Some (getIntermediateLatLng (getLatLngFromOffset 50 250) (getLatLngFromOffset 70 250) (1 / 200)),
        userBearing :=
          Some (calculateBearing (lat (getLatLngFromOffset 50 250)) (lng (getLatLngFromOffset 50 250))
                  (lat (getLatLngFromOffset 70 250)) (lng (getLatLngFromOffset 70 250)))\<rparr>"
proof -
  have lt: "totalDistanceTraveledRef walk_started + distanceToAdvance
              < totalPathLength (deref (layout_points walk_started)
                  (iv_pathPointsForMap
                     \<lparr>iv_pathPointsForMap = [0, 9, 10, 11, 6, 12, 7, 13, 14, 2],
                      iv_pathInstructions = Some ''gate-a-platform-1'',
                      iv_pnrDetails =
                        Some \<lparr>pnr_number = ''1234567890'', trainNumber = ''12001'',
                               platformNumber = ''1'', coachDetails = ''S1, Seat 45'',
                               destinationPlatformId = ''platform-1''\<rparr>,
                      iv_language = EnUS\<rparr>))"
    using walk_bounds
    by (simp only: walk_started_total walk_started_facts(5) distanceToAdvance_value)
  show ?thesis
    unfolding tick_running [OF walk_started_facts(1) lt]
    using walk_target_at walk_bounds
    by (simp add: walk_started_facts(2,5,6) distanceToAdvance_value walk_first_segment moveUser_def
        acd_latLng gate_a_latLng node_ga_1_latLng advanceInstruction_def walk_t1_def)
qed

subsection \<open>A walk over a segment of length 0\<close>

lemma looping_refs:
  "pushInstructions mockStationLayout_points looping_route [0] = [0, 0, 9, 0, 10]"
  by (simp add: tbl looping_route_def mkInstruction_def getPointById_def)

lemma tbl_10: "mockStationLayout_points ! 10 = mkPoint (''node-ga-2'', Some ''Node GA-2'', PathNode, 100, 250)"
  by (simp add: mockStationLayout_points_def rawStationPoints_def)

lemma looping_store:
  "assignCumulativeDistances mockStationLayout_points [0, 0, 9, 0, 10] 0 0
     = mockStationLayout_points
         [9 := (mockStationLayout_points ! 9)\<lparr>cumulativeDistance := Some 20\<rparr>,
          0 := (mockStationLayout_points ! 0)\<lparr>cumulativeDistance := Some 40\<rparr>,
          10 := (mockStationLayout_points ! 10)\<lparr>cumulativeDistance := Some 90\<rparr>]"
  by (simp add: acd_step acd_done tbl_length tbl_0 tbl_9 tbl_10 mkPoint_def
      getDistanceBetweenPoints_def sqrt_400 sqrt_2500 list_update_swap)

lemma looping_cumulative:
  "cumulativeDistance (assignCumulativeDistances mockStationLayout_points [0, 0, 9, 0, 10] 0 0 ! 0) = Some 40"
  "cumulativeDistance (assignCumulativeDistances mockStationLayout_points [0, 0, 9, 0, 10] 0 0 ! 9) = Some 20"
  "cumulativeDistance (assignCumulativeDistances mockStationLayout_points [0, 0, 9, 0, 10] 0 0 ! 10) = Some 90"
  by (simp_all add: looping_store tbl_length)

lemma looping_generate:
  "generatePathPointsForMap mockStationLayout_points looping_route (Some ''gate-a'')
     = (assignCumulativeDistances mockStationLayout_points [0, 0, 9, 0, 10] 0 0,
        map (annotateInstruction
               (assignCumulativeDistances mockStationLayout_points [0, 0, 9, 0, 10] 0 0)
               [0, 0, 9, 0, 10]) looping_route,
        [0, 0, 9, 0, 10])"
  by (simp add: generatePathPointsForMap_def gate_a_ref looping_refs Let_def)

lemma looping_started_facts:
  "simulationIntervalRef looping_started =
     Some \<lparr>iv_pathPointsForMap = [0, 0, 9, 0, 10],
            iv_pathInstructions = Some ''gate-a-platform-1'',
            iv_pnrDetails =
              Some \<lparr>pnr_number = ''1234567890'', trainNumber = ''12001'',
                     platformNumber = ''1'', coachDetails = ''S1, Seat 45'',
                     destinationPlatformId = ''platform-1''\<rparr>,
            iv_language = EnUS\<rparr>"
  "layout_points looping_started =
     assignCumulativeDistances mockStationLayout_points [0, 0, 9, 0, 10] 0 0"
  "totalDistanceTraveledRef looping_started = 0"
  by (simp_all add: looping_started_def startSimulation_def selectEntryGate_def lookupPNR_def
      handlePNRLookup_def handleEntryGateSelect_def initialState_def pnr_lookup Let_def
      cancelSimulation_def cancelSpeech_def clearRoute_def selectionEffect_def looping_generate
      mockPNRData_def firstLatLng_def acd_latLng gate_a_latLng instructionsOf_def speak_def)

lemma looping_total:
  "totalPathLength
     (deref (assignCumulativeDistances mockStationLayout_points [0, 0, 9, 0, 10] 0 0)
        [0, 0, 9, 0, 10]) = 90"
  by (simp add: totalPathLength_def deref_def looping_cumulative orZero_def)

lemma looping_segment:
  "findSegment
     (deref (assignCumulativeDistances mockStationLayout_points [0, 0, 9, 0, 10] 0 0)
        [0, 0, 9, 0, 10]) 40
   = Some (assignCumulativeDistances mockStationLayout_points [0, 0, 9, 0, 10] 0 0 ! 0,
           assignCumulativeDistances mockStationLayout_points [0, 0, 9, 0, 10] 0 0 ! 0,
           Some 0)"
  by (simp add: deref_def looping_cumulative orZero_def)

lemma looping_399:
  "simulationIntervalRef ((tick ^^ 399) looping_started) = simulationIntervalRef looping_started"
  "layout_points ((tick ^^ 399) looping_started) = layout_points looping_started"
  "totalDistanceTraveledRef ((tick ^^ 399) looping_started) = 399 / 10"
  using ticks_before_end [OF looping_started_facts(1), of 90 399]
  by (simp_all add: looping_started_facts looping_total)

text \<open>
  The first tick of the walk lies on the segment from gate A to the first path node, of
  length 20, at the fraction 1/200. On the route that passes its gate again, tick 400
  brings the accumulator to 40, the distance that the gate object reads at both ends of
  the first segment: the segment located has length 0, the fraction is 0 and the user is
  placed at the gate.
\<close>

theorem tick_fraction_guarded_witness:
  "findSegment (deref (layout_points walk_started) [0, 9, 10, 11, 6, 12, 7, 13, 14, 2]) (1 / 10)
     = Some (layout_points walk_started ! 0, layout_points walk_started ! 9, Some (1 / 200))
   \<and> orZero (cumulativeDistance (layout_points walk_started ! 0)) = 0
   \<and> orZero (cumulativeDistance (layout_points walk_started ! 9)) = 20
   \<and> userPosition (tick walk_started)
       = Some (getIntermediateLatLng (getLatLngFromOffset 50 250) (getLatLngFromOffset 70 250) (1 / 200))
   \<and> totalDistanceTraveledRef ((tick ^^ 399) looping_started) + distanceToAdvance = 40
   \<and> findSegment (deref (layout_points ((tick ^^ 399) looping_started)) [0, 0, 9, 0, 10]) 40
     = Some (layout_points looping_started ! 0, layout_points looping_started ! 0, Some 0)
   \<and> orZero (cumulativeDistance (layout_points looping_started ! 0)) = 40
   \<and> userPosition (tick ((tick ^^ 399) looping_started))
       = Some (getIntermediateLatLng (getLatLngFromOffset 50 250) (getLatLngFromOffset 50 250) 0)"
proof -
  let ?iv = "\<lparr>iv_pathPointsForMap = [0, 9, 10, 11, 6, 12, 7, 13, 14, 2],
            iv_pathInstructions = Some ''gate-a-platform-1'',
            iv_pnrDetails =
              Some \<lparr>pnr_number = ''1234567890'', trainNumber = ''12001'',
                     platformNumber = ''1'', coachDetails = ''S1, Seat 45'',
                     destinationPlatformId = ''platform-1''\<rparr>,
            iv_language = EnUS\<rparr>"
  let ?S = "layout_points walk_started"
  have seg: "findSegment (deref ?S (iv_pathPointsForMap ?iv))
               (totalDistanceTraveledRef walk_started + distanceToAdvance)
             = Some (?S ! 0, ?S ! 9, Some (1 / 200))"
    by (simp add: walk_started_facts(2,5) distanceToAdvance_value walk_first_segment)
  have lt: "totalDistanceTraveledRef walk_started + distanceToAdvance
              < totalPathLength (deref ?S (iv_pathPointsForMap ?iv))"
    using walk_bounds
    by (simp only: walk_started_total walk_started_facts(5) distanceToAdvance_value)
  have c: "orZero (cumulativeDistance (?S ! 0)) = 0" "orZero (cumulativeDistance (?S ! 9)) = 20"
    using walk_cumulative [of 0] walk_cumulative [of 1]
    by (simp_all add: walk_started_facts(2) orZero_def)
  have l: "latLng (?S ! 0) = Some (getLatLngFromOffset 50 250)"
    "latLng (?S ! 9) = Some (getLatLngFromOffset 70 250)"
    by (simp_all add: walk_started_facts(2) acd_latLng gate_a_latLng node_ga_1_latLng)
  from tick_fraction_guarded [OF walk_started_facts(1) refl refl lt seg refl refl] l
  have first: "userPosition (tick walk_started)
       = Some (getIntermediateLatLng (getLatLngFromOffset 50 250) (getLatLngFromOffset 70 250) (1 / 200))"
    by blast
  let ?jv = "\<lparr>iv_pathPointsForMap = [0, 0, 9, 0, 10],
            iv_pathInstructions = Some ''gate-a-platform-1'',
            iv_pnrDetails =
              Some \<lparr>pnr_number = ''1234567890'', trainNumber = ''12001'',
                     platformNumber = ''1'', coachDetails = ''S1, Seat 45'',
                     destinationPlatformId = ''platform-1''\<rparr>,
            iv_language = EnUS\<rparr>"
  let ?u = "(tick ^^ 399) looping_started"
  let ?L = "layout_points looping_started"
  have jv: "simulationIntervalRef ?u = Some ?jv"
    by (simp only: looping_399 looping_started_facts)
  have at: "totalDistanceTraveledRef ?u + distanceToAdvance = 40"
    by (simp add: looping_399 distanceToAdvance_value)
  have seg0: "findSegment (deref (layout_points ?u) (iv_pathPointsForMap ?jv))
                (totalDistanceTraveledRef ?u + distanceToAdvance)
              = Some (?L ! 0, ?L ! 0, Some 0)"
    unfolding at by (simp add: looping_399 looping_started_facts(2) looping_segment)
  have lt0: "totalDistanceTraveledRef ?u + distanceToAdvance
               < totalPathLength (deref (layout_points ?u) (iv_pathPointsForMap ?jv))"
    unfolding at by (simp add: looping_399 looping_started_facts(2) looping_total)
  have c0: "orZero (cumulativeDistance (?L ! 0)) = 40"
    by (simp add: looping_started_facts(2) looping_cumulative orZero_def)
  have l0: "latLng (?L ! 0) = Some (getLatLngFromOffset 50 250)"
    by (simp add: looping_started_facts(2) acd_latLng gate_a_latLng)
  from tick_fraction_guarded [OF jv refl refl lt0 seg0 refl refl] l0
  have zero: "userPosition (tick ?u)
       = Some (getIntermediateLatLng (getLatLngFromOffset 50 250) (getLatLngFromOffset 50 250) 0)"
    by auto
  from seg c first at seg0 [unfolded at] c0 zero show ?thesis
    by (simp add: walk_started_facts(5) distanceToAdvance_value)
qed

lemma walk_started_selection:
  "pnrDetails walk_started \<noteq> None"
  "selectedEntryGateId walk_started = Some ''gate-a''"
  by (simp_all add: walk_started_state walk_selected_state)

lemma walk_500:
  "totalDistanceTraveledRef ((tick ^^ 500) walk_started) = 50"
  "currentInstructionIdxRef ((tick ^^ 500) walk_started) = 1"
  "currentInstructionIndex ((tick ^^ 500) walk_started) = 1"
  using walk_started_run [of 500] walk_bounds by (simp_all add: walkIndex_def walk_t1_def)

text \<open>
  After 500 ticks of the walk the accumulator is 50 and both indices are 1. Recalculate
  Route, and picking gate A again, leave the PNR record and the gate as they are and set
  the displayed index to 0, while the simulator's index stays 1 and the accumulator 50.
\<close>

theorem recalculateRoute_counterexample:
  "currentInstructionIndex ((tick ^^ 500) walk_started) = 1
   \<and> currentInstructionIdxRef ((tick ^^ 500) walk_started) = 1
   \<and> totalDistanceTraveledRef ((tick ^^ 500) walk_started) = 50
   \<and> map_option pnrDetails (recalculateRoute 3 True 0 ((tick ^^ 500) walk_started))
       = Some (pnrDetails ((tick ^^ 500) walk_started))
   \<and> map_option selectedEntryGateId (recalculateRoute 3 True 0 ((tick ^^ 500) walk_started))
       = Some (selectedEntryGateId ((tick ^^ 500) walk_started))
   \<and> map_option currentInstructionIndex (recalculateRoute 3 True 0 ((tick ^^ 500) walk_started))
       = Some 0
   \<and> map_option currentInstructionIdxRef (recalculateRoute 3 True 0 ((tick ^^ 500) walk_started))
       = Some 1
   \<and> map_option totalDistanceTraveledRef (recalculateRoute 3 True 0 ((tick ^^ 500) walk_started))
       = Some 50
   \<and> selectedEntryGateId ((tick ^^ 500) walk_started) = Some ''gate-a''
   \<and> pnrDetails (selectEntryGate ''gate-a'' ((tick ^^ 500) walk_started))
       = pnrDetails ((tick ^^ 500) walk_started)
   \<and> currentInstructionIndex (selectEntryGate ''gate-a'' ((tick ^^ 500) walk_started)) = 0
   \<and> currentInstructionIdxRef (selectEntryGate ''gate-a'' ((tick ^^ 500) walk_started)) = 1
   \<and> totalDistanceTraveledRef (selectEntryGate ''gate-a'' ((tick ^^ 500) walk_started)) = 50"
proof -
  let ?s = "(tick ^^ 500) walk_started"
  have sel: "selectedEntryGateId ?s = Some ''gate-a''" "pnrDetails ?s \<noteq> None"
    by (simp_all add: funpow_tick_frame walk_started_selection)
  have g: "''gate-a'' \<noteq> []" by simp
  from recalculateRoute_selected [OF sel(1) g sel(2), of 0 True 0]
  have rc: "map_option pnrDetails (recalculateRoute 3 True 0 ?s) = Some (pnrDetails ?s)"
    "map_option selectedEntryGateId (recalculateRoute 3 True 0 ?s) = Some (selectedEntryGateId ?s)"
    "map_option currentInstructionIndex (recalculateRoute 3 True 0 ?s) = Some 0"
    "map_option currentInstructionIdxRef (recalculateRoute 3 True 0 ?s) = Some 1"
    "map_option totalDistanceTraveledRef (recalculateRoute 3 True 0 ?s) = Some 50"
    by (auto simp: numeral_3_eq_3 walk_500)
  show ?thesis
    using rc sel(1)
    by (simp add: walk_500 selectEntryGate_same [OF sel(1)] handleEntryGateSelect_frame)
qed

text \<open>
  After the first tick of the walk: a pause, live location (two cancellations, no user
  position), a restart, gate A again and Recalculate Route keep the accumulator at 0.1 m;
  another gate or another PNR sets it to 0.
\<close>

theorem cancelSimulation_keeps_progress_witness:
  "totalDistanceTraveledRef (tick walk_started) = 1 / 10
   \<and> simulationIntervalRef (tick walk_started) \<noteq> None
   \<and> simulationIntervalRef (cancelSimulation (tick walk_started)) = None
   \<and> totalDistanceTraveledRef (cancelSimulation (tick walk_started)) = 1 / 10
   \<and> map_option totalDistanceTraveledRef (setLiveLocationEnabled 3 True True 0 (tick walk_started))
       = Some (1 / 10)
   \<and> map_option simulationIntervalRef (setLiveLocationEnabled 3 True True 0 (tick walk_started))
       = Some None
   \<and> map_option userPosition (setLiveLocationEnabled 3 True True 0 (tick walk_started)) = Some None
   \<and> map_option speech (setLiveLocationEnabled 3 True True 0 (tick walk_started))
       = Some (speech (tick walk_started) @ [CancelSpeech, CancelSpeech])
   \<and> totalDistanceTraveledRef (startSimulation (cancelSimulation (tick walk_started))) = 1 / 10
   \<and> totalDistanceTraveledRef (selectEntryGate ''gate-b'' (tick walk_started)) = 0
   \<and> totalDistanceTraveledRef (lookupPNR ''0987654321'' (tick walk_started)) = 0
   \<and> totalDistanceTraveledRef (selectEntryGate ''gate-a'' (tick walk_started)) = 1 / 10
   \<and> currentInstructionIndex (selectEntryGate ''gate-a'' (tick walk_started)) = 0
   \<and> map_option totalDistanceTraveledRef (recalculateRoute 3 True 0 (tick walk_started))
       = Some (1 / 10)
   \<and> map_option currentInstructionIndex (recalculateRoute 3 True 0 (tick walk_started)) = Some 0"
proof -
  let ?s = "tick walk_started"
  have f: "totalDistanceTraveledRef ?s = 1 / 10" "simulationIntervalRef ?s \<noteq> None"
    "\<not> liveLocationEnabled ?s" "selectedEntryGateId ?s = Some ''gate-a''"
    "userPosition (cancelSimulation ?s) \<noteq> None"
    "totalDistanceTraveledRef (cancelSimulation ?s) \<noteq> 0"
    "pnrDetails ?s \<noteq> None" "userPosition ?s \<noteq> actualUserLatLng ?s"
    "actualUserLatLng ?s = None"
    unfolding walk_first_tick
    by (simp_all add: walk_started_state walk_selected_state
        cancelSimulation_def cancelSpeech_def)
  have p: "pnrDetails (lookupPNR ''0987654321'' ?s) \<noteq> pnrDetails ?s"
    unfolding walk_first_tick
    by (simp add: walk_started_state walk_selected_state lookupPNR_def
        handlePNRLookup_def getPNRDetails_def mockPNRData_def Let_def cancelSimulation_def
        cancelSpeech_def clearRoute_def selectionEffect_def)
  note t = cancelSimulation_keeps_progress [of ?s 3 True 0 "''gate-b''" "''0987654321''"]
    cancelSimulation_keeps_progress [of ?s 3 True 0 "''gate-a''" "''0987654321''"]
    cancelSimulation_keeps_progress [of "cancelSimulation ?s" 3 True 0 "''gate-b''" "''0987654321''"]
  have live: "map_option totalDistanceTraveledRef (setLiveLocationEnabled 3 True True 0 ?s)
                = Some (1 / 10)"
    "map_option simulationIntervalRef (setLiveLocationEnabled 3 True True 0 ?s) = Some None"
    "map_option userPosition (setLiveLocationEnabled 3 True True 0 ?s) = Some None"
    "map_option speech (setLiveLocationEnabled 3 True True 0 ?s)
       = Some (speech ?s @ [CancelSpeech, CancelSpeech])"
    using t(1) f(1,3,8,9) by auto
  have rc: "map_option totalDistanceTraveledRef (recalculateRoute 3 True 0 ?s) = Some (1 / 10)"
    "map_option currentInstructionIndex (recalculateRoute 3 True 0 ?s) = Some 0"
    using t(2) f(1,4,7) by auto
  show ?thesis
    using t f p live rc by simp
qed

section \<open>Two routes over the shared table\<close>
















end
